theory Spec2Isabelle
  imports Main "HOL-Library.Word"
begin

section \<open>Machine types of pm.cpp\<close>

text \<open>
  A reading of \<open>std::chrono::steady_clock\<close> is a signed 64-bit count of nanoseconds,
  read with \<open>sint\<close>. The difference \<open>t1 - t0\<close> of two readings is taken exactly; an
  overflow of that subtraction is undefined behaviour in the source and outside this model.
  The values of type \<open>long long\<close> (the millisecond counts) are integers between
  \<open>LLONG_MIN\<close> and \<open>LLONG_MAX\<close>; the loop counter and \<open>reps\<close> are C++ \<open>int\<close>s,
  compared and incremented below \<open>reps\<close> only, so they never overflow.
\<close>

type_synonym time_point = "64 word"

definition LLONG_MAX :: int where
  "LLONG_MAX = 9223372036854775807"

definition LLONG_MIN :: int where
  "LLONG_MIN = - 9223372036854775808"

text \<open>
  \<open>std::chrono::duration_cast<std::chrono::milliseconds>\<close> of a nanosecond count:
  the integer division by 1000000 of C++, which truncates towards zero.
\<close>

definition duration_cast_ms :: "int \<Rightarrow> int" where
  "duration_cast_ms ns = (if ns < 0 then - ((- ns) div 1000000) else ns div 1000000)"

section \<open>The timing harness\<close>

text \<open>
  \<open>time_ms\<close> (pm.cpp, lines 30 to 36). The state \<open>'s\<close> is everything the clock and the
  computation \<open>fn\<close> can read and change; \<open>now\<close> is \<open>clock_type::now()\<close>.
\<close>

definition time_ms :: "('s \<Rightarrow> time_point \<times> 's) \<Rightarrow> ('s \<Rightarrow> 's) \<Rightarrow> 's \<Rightarrow> int \<times> 's" where
  "time_ms now fn s =
     (let (t0, s1) = now s;
          s2 = fn s1;
          (t1, s3) = now s2
      in (duration_cast_ms (sint t1 - sint t0), s3))"

text \<open>
  The loop of \<open>bench_best_ms\<close> (line 41):
  \<open>for (int i = 0; i < reps; ++i) best = std::min(best, time_ms(fn));\<close>
\<close>

function bench_loop ::
  "('s \<Rightarrow> time_point \<times> 's) \<Rightarrow> ('s \<Rightarrow> 's) \<Rightarrow> int \<Rightarrow> int \<Rightarrow> int \<Rightarrow> 's \<Rightarrow> int \<times> 's" where
  "bench_loop now fn reps i best s =
     (if i < reps
      then (let (d, s') = time_ms now fn s
            in bench_loop now fn reps (i + 1) (min best d) s')
      else (best, s))"
  by pat_completeness auto
termination
  by (relation "measure (\<lambda>(now, fn, reps, i, best, s). nat (reps - i))") auto

declare bench_loop.simps [simp del]

text \<open>\<open>bench_best_ms\<close> (lines 38 to 43); the source's default for \<open>reps\<close> is 3.\<close>

definition bench_best_ms ::
  "('s \<Rightarrow> time_point \<times> 's) \<Rightarrow> ('s \<Rightarrow> 's) \<Rightarrow> int \<Rightarrow> 's \<Rightarrow> int \<times> 's" where
  "bench_best_ms now fn reps s = bench_loop now fn reps 0 LLONG_MAX s"

definition default_reps :: int where
  "default_reps = 3"

section \<open>What a sequence of timed executions is\<close>

text \<open>
  The pairs (start reading, end reading) of \<open>n\<close> successive timed executions of \<open>fn\<close>
  from state \<open>s\<close>, and the state they leave.
\<close>

fun timed_runs ::
  "('s \<Rightarrow> time_point \<times> 's) \<Rightarrow> ('s \<Rightarrow> 's) \<Rightarrow> nat \<Rightarrow> 's \<Rightarrow> (time_point \<times> time_point) list" where
  "timed_runs now fn 0 s = []"
| "timed_runs now fn (Suc n) s =
     (let (t0, s1) = now s;
          (t1, s3) = now (fn s1)
      in (t0, t1) # timed_runs now fn n s3)"

fun after_runs :: "('s \<Rightarrow> time_point \<times> 's) \<Rightarrow> ('s \<Rightarrow> 's) \<Rightarrow> nat \<Rightarrow> 's \<Rightarrow> 's" where
  "after_runs now fn 0 s = s"
| "after_runs now fn (Suc n) s = after_runs now fn n (snd (now (fn (snd (now s)))))"

text \<open>The milliseconds that \<open>time_ms\<close> returns for a pair of readings.\<close>

definition elapsed_ms :: "time_point \<times> time_point \<Rightarrow> int" where
  "elapsed_ms p = duration_cast_ms (sint (snd p) - sint (fst p))"

text \<open>An elapsed time rounded down to whole milliseconds.\<close>

definition floor_ms :: "time_point \<times> time_point \<Rightarrow> int" where
  "floor_ms p = (sint (snd p) - sint (fst p)) div 1000000"

text \<open>
  Counting the executions of a computation: the state is paired with a counter that only
  the wrapped computation increments; the clock leaves it alone.
\<close>

definition counted :: "('s \<Rightarrow> 's) \<Rightarrow> nat \<times> 's \<Rightarrow> nat \<times> 's" where
  "counted fn = (\<lambda>(c, s). (Suc c, fn s))"

definition beside :: "('s \<Rightarrow> time_point \<times> 's) \<Rightarrow> 'c \<times> 's \<Rightarrow> time_point \<times> ('c \<times> 's)" where
  "beside now = (\<lambda>(c, s). let (t, s') = now s in (t, (c, s')))"

section \<open>The standard library and the platform, as the driver uses them\<close>

text \<open>
  A \<open>double\<close> is its IEEE-754 binary64 bit pattern. The driver never computes with
  doubles except for the two additions into \<open>guard\<close>; it parses, copies and prints them.
\<close>

type_synonym double = "64 word"

definition double_0_0 :: double where
  "double_0_0 = 0"

definition double_1_0 :: double where
  "double_1_0 = 0x3FF0000000000000"

definition double_2_0 :: double where
  "double_2_0 = 0x4000000000000000"

text \<open>The exceptions that the library calls of \<open>main\<close> can throw; none is caught.\<close>

datatype error = Invalid_argument | Out_of_range | Length_error | Bad_alloc

text \<open>
  \<open>std::stoll\<close> with its default base 10, after \<open>strtoll\<close> in the C locale: leading
  white space is skipped, one sign is optional, at least one decimal digit is required
  (\<open>std::invalid_argument\<close> otherwise), what follows the digits is ignored, and a value
  outside \<open>long long\<close> is \<open>std::out_of_range\<close>.
\<close>

definition isspace :: "char \<Rightarrow> bool" where
  "isspace c = (c = CHR '' '' \<or> (9 :: nat) \<le> of_char c \<and> of_char c \<le> (13 :: nat))"

definition isdigit :: "char \<Rightarrow> bool" where
  "isdigit c = ((48 :: nat) \<le> of_char c \<and> of_char c \<le> (57 :: nat))"

definition digits_value :: "string \<Rightarrow> int" where
  "digits_value ds = foldl (\<lambda>a c. 10 * a + (of_char c - 48)) 0 ds"

definition stoll :: "string \<Rightarrow> error + int" where
  "stoll str =
     (let s1 = dropWhile isspace str;
          neg = (s1 \<noteq> [] \<and> hd s1 = CHR ''-'');
          s2 = (if s1 \<noteq> [] \<and> (hd s1 = CHR ''-'' \<or> hd s1 = CHR ''+'') then tl s1 else s1);
          ds = takeWhile isdigit s2;
          v = (if neg then - digits_value ds else digits_value ds)
      in if ds = [] then Inl Invalid_argument
         else if v < LLONG_MIN \<or> LLONG_MAX < v then Inl Out_of_range
         else Inr v)"

text \<open>\<open>static_cast<std::size_t>\<close> of a \<open>long long\<close>, with a 64-bit \<open>std::size_t\<close>.\<close>

definition size_t_cast :: "int \<Rightarrow> nat" where
  "size_t_cast v = nat (v mod 2 ^ 64)"

text \<open>
  The library functions whose results the driver only passes on: \<open>std::stod\<close> (it
  throws \<open>std::invalid_argument\<close> or \<open>std::out_of_range\<close>), the addition of doubles,
  the constructors of \<open>std::mt19937_64\<close> and of \<open>std::normal_distribution<double>\<close>,
  and \<open>dist(rng)\<close>, which returns a sample and advances both objects.
\<close>

record ('r, 'n) lib =
  stod :: "string \<Rightarrow> error + double"
  double_add :: "double \<Rightarrow> double \<Rightarrow> double"
  mt19937_64 :: "64 word \<Rightarrow> 'r"
  normal_distribution :: "double \<Rightarrow> double \<Rightarrow> 'n"
  dist_call :: "'n \<Rightarrow> 'r \<Rightarrow> double \<times> 'n \<times> 'r"

text \<open>
  What the driver calls that reads or changes the world \<open>'w\<close> outside it: the steady
  clock, the two kernels of \<open>partial_moments.hpp\<close> (they take the data by reference to
  const and return a double; a kernel that throws or does not return is not modelled), and
  the allocation of a vector of \<open>n\<close> doubles, which
  throws \<open>std::length_error\<close> or \<open>std::bad_alloc\<close> when the platform cannot provide it.
\<close>

record 'w sys =
  clock_now :: "'w \<Rightarrow> time_point \<times> 'w"
  LPM :: "double \<Rightarrow> double list \<Rightarrow> double \<Rightarrow> 'w \<Rightarrow> double \<times> 'w"
  UPM :: "double \<Rightarrow> double list \<Rightarrow> double \<Rightarrow> 'w \<Rightarrow> double \<times> 'w"
  vector_alloc :: "nat \<Rightarrow> 'w \<Rightarrow> error option \<times> 'w"

text \<open>What is inserted into \<open>std::cout\<close>, one item for each \<open><<\<close>.\<close>

datatype out_item =
  Text string | LongLong int | SizeT nat | Double double | SetPrecision int

section \<open>The driver\<close>

text \<open>
  \<open>main\<close>, lines 47 to 53: the defaults and the three optional arguments.
  \<open>argv\<close> is the whole argument vector (\<open>argv[0]\<close> is the program's name) and
  \<open>argc\<close> its length.
\<close>

definition main_args :: "('r, 'n) lib \<Rightarrow> string list \<Rightarrow> error + (nat \<times> double \<times> double)" where
  "main_args lib argv =
     (case (if 1 < length argv
            then (case stoll (argv ! 1) of Inl e \<Rightarrow> Inl e | Inr v \<Rightarrow> Inr (size_t_cast v))
            else Inr 12000000) of
        Inl e \<Rightarrow> Inl e
      | Inr N \<Rightarrow>
          (case (if 2 < length argv then stod lib (argv ! 2) else Inr double_2_0) of
             Inl e \<Rightarrow> Inl e
           | Inr degree \<Rightarrow>
               (case (if 3 < length argv then stod lib (argv ! 3) else Inr double_0_0) of
                  Inl e \<Rightarrow> Inl e
                | Inr target \<Rightarrow> Inr (N, degree, target))))"

text \<open>The loop of line 59: \<open>for (std::size_t i = 0; i < N; ++i) x[i] = dist(rng);\<close>\<close>

function fill_loop ::
  "('r, 'n) lib \<Rightarrow> nat \<Rightarrow> nat \<Rightarrow> double list \<Rightarrow> 'n \<Rightarrow> 'r \<Rightarrow> double list \<times> 'n \<times> 'r" where
  "fill_loop lib N i x dist rng =
     (if i < N
      then (let (v, dist', rng') = dist_call lib dist rng
            in fill_loop lib N (i + 1) (x[i := v]) dist' rng')
      else (x, dist, rng))"
  by pat_completeness auto
termination
  by (relation "measure (\<lambda>(lib, N, i, x, dist, rng). N - i)") auto

declare fill_loop.simps [simp del]

text \<open>
  The variables of \<open>main\<close> when it returns, with what was written to \<open>std::cout\<close> and
  the world as the run left it.
\<close>

record 'w frame =
  fr_N :: nat
  fr_degree :: double
  fr_target :: double
  fr_x :: "double list"
  fr_guard :: double
  fr_lpm_val :: double
  fr_upm_val :: double
  fr_lpm_ms :: int
  fr_upm_ms :: int
  fr_out :: "out_item list"
  fr_world :: 'w

text \<open>
  A run ends with an uncaught exception (the output so far and the world are kept), or
  \<open>main\<close> returns its value.
\<close>

datatype 'w run = Terminated error "out_item list" 'w | Returned int "'w frame"

text \<open>
  The two lambdas of lines 69 to 76 capture by reference: each writes one variable
  (\<open>lpm_val\<close> or \<open>upm_val\<close>) and calls a kernel, so their state is that variable
  and the world.
\<close>

definition main :: "('r, 'n) lib \<Rightarrow> 'w sys \<Rightarrow> string list \<Rightarrow> 'w \<Rightarrow> 'w run" where
  "main lib sys argv w =
     (case main_args lib argv of
        Inl e \<Rightarrow> Terminated e [] w
      | Inr (N, degree, target) \<Rightarrow>
          (case vector_alloc sys N w of
             (Some e, w0) \<Rightarrow> Terminated e [] w0
           | (None, w0) \<Rightarrow>
               (let x0 = replicate N double_0_0;
                    rng = mt19937_64 lib 123456789;
                    dist = normal_distribution lib double_0_0 double_1_0;
                    (x, dist', rng') = fill_loop lib N 0 x0 dist rng;
                    guard0 = double_0_0;
                    (r1, w1) = LPM sys degree x target w0;
                    guard1 = double_add lib guard0 r1;
                    (r2, w2) = UPM sys degree x target w1;
                    guard2 = double_add lib guard1 r2;
                    (lpm_ms, lpm_val, w3) =
                       bench_best_ms (beside (clock_now sys))
                         (\<lambda>(lpm_val, w). LPM sys degree x target w) default_reps (double_0_0, w2);
                    (upm_ms, upm_val, w4) =
                       bench_best_ms (beside (clock_now sys))
                         (\<lambda>(upm_val, w). UPM sys degree x target w) default_reps (double_0_0, w3);
                    out =
                      [Text (''===== LPM & UPM Performance (ms) ====='' @ [CHR 0x0A]),
                       Text ''C++ (NNS) LPM: '', LongLong lpm_ms,
                       Text '' ms, UPM: '', LongLong upm_ms, Text ('' ms'' @ [CHR 0x0A]),
                       Text ''The sample size when '', SizeT N, Text [CHR 0x0A, CHR 0x0A],
                       SetPrecision 10,
                       Text ''Results (degree='', Double degree,
                       Text '', target='', Double target, Text ('')'' @ [CHR 0x0A]),
                       Text ''LPM = '', Double lpm_val, Text [CHR 0x0A],
                       Text ''UPM = '', Double upm_val, Text [CHR 0x0A]]
                in Returned 0
                     \<lparr>fr_N = N, fr_degree = degree, fr_target = target, fr_x = x,
                      fr_guard = guard2, fr_lpm_val = lpm_val, fr_upm_val = upm_val,
                      fr_lpm_ms = lpm_ms, fr_upm_ms = upm_ms, fr_out = out, fr_world = w4\<rparr>)))"

section \<open>Observing a run\<close>

text \<open>
  The calls that reach the world, in the order they happen, each with its arguments and
  its result.
\<close>

datatype event =
  Ev_alloc nat
| Ev_now time_point
| Ev_LPM double "double list" double double
| Ev_UPM double "double list" double double

text \<open>
  The same platform with a log beside its world: every call is appended to the log when
  it returns, and nothing else touches the log.
\<close>

definition monitor :: "'w sys \<Rightarrow> ('w \<times> event list) sys" where
  "monitor sys =
     \<lparr>clock_now = (\<lambda>(w, tr). let (t, w') = clock_now sys w in (t, (w', tr @ [Ev_now t]))),
      LPM = (\<lambda>degree x target (w, tr).
               let (r, w') = LPM sys degree x target w
               in (r, (w', tr @ [Ev_LPM degree x target r]))),
      UPM = (\<lambda>degree x target (w, tr).
               let (r, w') = UPM sys degree x target w
               in (r, (w', tr @ [Ev_UPM degree x target r]))),
      vector_alloc = (\<lambda>n (w, tr).
               let (e, w') = vector_alloc sys n w in (e, (w', tr @ [Ev_alloc n])))\<rparr>"

text \<open>The kind of each event, and the results of the kernel calls in a log.\<close>

datatype kind = K_alloc | K_now | K_LPM | K_UPM

fun kind_of :: "event \<Rightarrow> kind" where
  "kind_of (Ev_alloc n) = K_alloc"
| "kind_of (Ev_now t) = K_now"
| "kind_of (Ev_LPM d x t r) = K_LPM"
| "kind_of (Ev_UPM d x t r) = K_UPM"

fun lpm_results :: "event list \<Rightarrow> double list" where
  "lpm_results [] = []"
| "lpm_results (Ev_LPM d x t r # es) = r # lpm_results es"
| "lpm_results (e # es) = lpm_results es"

fun upm_results :: "event list \<Rightarrow> double list" where
  "upm_results [] = []"
| "upm_results (Ev_UPM d x t r # es) = r # upm_results es"
| "upm_results (e # es) = upm_results es"

fun kernel_args :: "event \<Rightarrow> (double \<times> double list \<times> double) option" where
  "kernel_args (Ev_LPM d x t r) = Some (d, x, t)"
| "kernel_args (Ev_UPM d x t r) = Some (d, x, t)"
| "kernel_args e = None"

fun now_readings :: "event list \<Rightarrow> time_point list" where
  "now_readings [] = []"
| "now_readings (Ev_now t # es) = t # now_readings es"
| "now_readings (e # es) = now_readings es"

text \<open>A monitored run with the log dropped again.\<close>

fun unmonitored :: "('w \<times> event list) run \<Rightarrow> 'w run" where
  "unmonitored (Terminated e out wt) = Terminated e out (fst wt)"
| "unmonitored (Returned rc fr) =
     Returned rc
       \<lparr>fr_N = fr_N fr, fr_degree = fr_degree fr, fr_target = fr_target fr, fr_x = fr_x fr,
        fr_guard = fr_guard fr, fr_lpm_val = fr_lpm_val fr, fr_upm_val = fr_upm_val fr,
        fr_lpm_ms = fr_lpm_ms fr, fr_upm_ms = fr_upm_ms fr, fr_out = fr_out fr,
        fr_world = fst (fr_world fr)\<rparr>"

text \<open>The world as a run left it, whichever way the run ended.\<close>

fun world_of :: "'w run \<Rightarrow> 'w" where
  "world_of (Terminated e out w) = w"
| "world_of (Returned rc fr) = fr_world fr"

section \<open>Test doubles\<close>

text \<open>
  A test double with controllable durations: the state is the clock reading and the list of
  durations (in nanoseconds) that the next executions will take.
\<close>

definition td_now :: "time_point \<times> time_point list \<Rightarrow> time_point \<times> (time_point \<times> time_point list)" where
  "td_now s = (fst s, s)"

fun td_fn :: "time_point \<times> time_point list \<Rightarrow> time_point \<times> time_point list" where
  "td_fn (t, []) = (t, [])"
| "td_fn (t, d # ds) = (t + d, ds)"


text \<open>
  A library double: \<open>stod\<close> knows four tokens, the generator counts up from its seed.
\<close>

definition td_stod :: "string \<Rightarrow> error + double" where
  "td_stod s =
     (if s = ''3'' then Inr 0x4008000000000000
      else if s = ''0.1'' then Inr 0x3FB999999999999A
      else if s = ''2.0'' then Inr 0x4000000000000000
      else if s = ''0.0'' then Inr 0
      else Inl Invalid_argument)"

definition td_lib :: "(64 word, unit) lib" where
  "td_lib =
     \<lparr>stod = td_stod, double_add = (+), mt19937_64 = (\<lambda>seed. seed),
      normal_distribution = (\<lambda>m sd. ()), dist_call = (\<lambda>n r. (r, n, r + 1))\<rparr>"

text \<open>
  A platform double: the world is a clock reading and a call counter. Each kernel is a
  stateful counter: it returns the number of kernel calls so far and takes 2 ms; a
  vector of up to 1000 doubles can be allocated.
\<close>

definition td_sys :: "(time_point \<times> 64 word) sys" where
  "td_sys =
     \<lparr>clock_now = (\<lambda>(t, c). (t, (t, c))),
      LPM = (\<lambda>degree x target (t, c). (c + 1, (t + 2000000, c + 1))),
      UPM = (\<lambda>degree x target (t, c). (c + 1, (t + 2000000, c + 1))),
      vector_alloc = (\<lambda>n w. (if n \<le> 1000 then None else Some Length_error, w))\<rparr>"

text \<open>
  The first lambda of \<open>main\<close> on the monitored platform double, with degree 2.0, no
  data and target 0.0 captured.
\<close>

definition td_lpm_fn :: "double \<times> (time_point \<times> 64 word) \<times> event list \<Rightarrow> double \<times> (time_point \<times> 64 word) \<times> event list" where
  "td_lpm_fn = (\<lambda>(lpm_val, w). LPM (monitor td_sys) double_2_0 [] double_0_0 w)"

text \<open>
  Where the run of \<open>main\<close> on the two doubles, monitored, with the one argument \<open>2\<close>
  and from clock reading 1000 ends.
\<close>

definition td_frame :: "((time_point \<times> 64 word) \<times> event list) frame" where
  "td_frame =
     \<lparr>fr_N = 2, fr_degree = double_2_0, fr_target = double_0_0,
      fr_x = [123456789, 123456790], fr_guard = 3,
      fr_lpm_val = 5, fr_upm_val = 8, fr_lpm_ms = 2, fr_upm_ms = 2,
      fr_out =
        [Text (''===== LPM & UPM Performance (ms) ====='' @ [CHR 0x0A]),
         Text ''C++ (NNS) LPM: '', LongLong 2, Text '' ms, UPM: '',
         LongLong 2, Text ('' ms'' @ [CHR 0x0A]),
         Text ''The sample size when '', SizeT 2, Text [CHR 0x0A, CHR 0x0A],
         SetPrecision 10,
         Text ''Results (degree='', Double double_2_0,
         Text '', target='', Double double_0_0, Text ('')'' @ [CHR 0x0A]),
         Text ''LPM = '', Double 5, Text [CHR 0x0A],
         Text ''UPM = '', Double 8, Text [CHR 0x0A]],
      fr_world =
        ((16001000, 8),
         [Ev_alloc 2,
          Ev_LPM double_2_0 [123456789, 123456790] double_0_0 1,
          Ev_UPM double_2_0 [123456789, 123456790] double_0_0 2,
          Ev_now 4001000, Ev_LPM double_2_0 [123456789, 123456790] double_0_0 3, Ev_now 6001000,
          Ev_now 6001000, Ev_LPM double_2_0 [123456789, 123456790] double_0_0 4, Ev_now 8001000,
          Ev_now 8001000, Ev_LPM double_2_0 [123456789, 123456790] double_0_0 5, Ev_now 10001000,
          Ev_now 10001000, Ev_UPM double_2_0 [123456789, 123456790] double_0_0 6, Ev_now 12001000,
          Ev_now 12001000, Ev_UPM double_2_0 [123456789, 123456790] double_0_0 7, Ev_now 14001000,
          Ev_now 14001000, Ev_UPM double_2_0 [123456789, 123456790] double_0_0 8, Ev_now 16001000])\<rparr>"

text \<open>
  Where the run on the two doubles, not monitored, with the arguments \<open>2\<close>, \<open>3\<close> and
  \<open>0.1\<close> and from the world \<open>(5, 7)\<close> ends.
\<close>

definition td_frame2 :: "(time_point \<times> 64 word) frame" where
  "td_frame2 =
     \<lparr>fr_N = 2, fr_degree = 0x4008000000000000, fr_target = 0x3FB999999999999A,
      fr_x = [123456789, 123456790], fr_guard = 17,
      fr_lpm_val = 12, fr_upm_val = 15, fr_lpm_ms = 2, fr_upm_ms = 2,
      fr_out =
        [Text (''===== LPM & UPM Performance (ms) ====='' @ [CHR 0x0A]),
         Text ''C++ (NNS) LPM: '', LongLong 2, Text '' ms, UPM: '',
         LongLong 2, Text ('' ms'' @ [CHR 0x0A]),
         Text ''The sample size when '', SizeT 2, Text [CHR 0x0A, CHR 0x0A],
         SetPrecision 10,
         Text ''Results (degree='', Double 0x4008000000000000,
         Text '', target='', Double 0x3FB999999999999A, Text ('')'' @ [CHR 0x0A]),
         Text ''LPM = '', Double 12, Text [CHR 0x0A],
         Text ''UPM = '', Double 15, Text [CHR 0x0A]],
      fr_world = (16000005, 15)\<rparr>"

section \<open>Properties of the timing harness\<close>

lemma bench_loop_done: "reps \<le> i \<Longrightarrow> bench_loop now fn reps i best s = (best, s)"
  by (subst bench_loop.simps) simp

lemma bench_loop_step:
  "i < reps \<Longrightarrow>
   bench_loop now fn reps i best s =
     bench_loop now fn reps (i + 1) (min best (fst (time_ms now fn s))) (snd (time_ms now fn s))"
  by (subst bench_loop.simps) (simp add: split_def Let_def)

lemma time_ms_alt:
  "time_ms now fn s =
     (elapsed_ms (fst (now s), fst (now (fn (snd (now s))))), snd (now (fn (snd (now s)))))"
  by (simp add: time_ms_def elapsed_ms_def split_def Let_def)

lemma timed_runs_Suc:
  "timed_runs now fn (Suc n) s =
     (fst (now s), fst (now (fn (snd (now s))))) # timed_runs now fn n (snd (now (fn (snd (now s)))))"
  by (simp add: split_def Let_def)

lemma bench_loop_runs:
  "bench_loop now fn reps i best s =
     (foldl min best (map elapsed_ms (timed_runs now fn (nat (reps - i)) s)),
      after_runs now fn (nat (reps - i)) s)"
proof (induction now fn reps i best s rule: bench_loop.induct)
  case (1 now fn reps i best s)
  show ?case
  proof (cases "i < reps")
    case True
    then have n: "nat (reps - i) = Suc (nat (reps - (i + 1)))"
      by simp
    have "bench_loop now fn reps i best s =
            bench_loop now fn reps (i + 1) (min best (fst (time_ms now fn s))) (snd (time_ms now fn s))"
      using True by (rule bench_loop_step)
    also have "\<dots> = (foldl min (min best (fst (time_ms now fn s)))
                        (map elapsed_ms (timed_runs now fn (nat (reps - (i + 1))) (snd (time_ms now fn s)))),
                      after_runs now fn (nat (reps - (i + 1))) (snd (time_ms now fn s)))"
      by (rule "1.IH" [OF True refl]) simp
    finally show ?thesis
      unfolding n timed_runs_Suc after_runs.simps by (simp add: time_ms_alt)
  next
    case False
    then show ?thesis by (simp add: bench_loop_done)
  qed
qed

lemma bench_best_ms_runs:
  "bench_best_ms now fn reps s =
     (foldl min LLONG_MAX (map elapsed_ms (timed_runs now fn (nat reps) s)),
      after_runs now fn (nat reps) s)"
  by (simp add: bench_best_ms_def bench_loop_runs)

lemma foldl_min_Min: "foldl min (b :: int) ds = Min (insert b (set ds))"
proof (induction ds arbitrary: b)
  case Nil
  show ?case by simp
next
  case (Cons d ds)
  have "Min (insert (min b d) (set ds)) = Min (insert b (insert d (set ds)))"
    by (cases "set ds = {}") (simp_all add: min.assoc)
  then show ?case by (simp add: Cons.IH)
qed

lemma length_timed_runs: "length (timed_runs now fn n s) = n"
  by (induction n arbitrary: s) (simp_all add: split_def Let_def)

lemma elapsed_ms_less: "elapsed_ms p < LLONG_MAX"
proof -
  have "sint (snd p) - sint (fst p) < 2 ^ 64" "- (2 ^ 64) < sint (snd p) - sint (fst p)"
    using sint_lt [of "snd p"] sint_ge [of "snd p"] sint_lt [of "fst p"] sint_ge [of "fst p"] by simp_all
  then show ?thesis
    unfolding elapsed_ms_def duration_cast_ms_def LLONG_MAX_def by (simp split: if_splits) linarith
qed

lemma elapsed_ms_floor: "sint (fst p) \<le> sint (snd p) \<Longrightarrow> elapsed_ms p = floor_ms p"
  by (simp add: elapsed_ms_def floor_ms_def duration_cast_ms_def)

lemma floor_ms_nonneg: "sint (fst p) \<le> sint (snd p) \<Longrightarrow> 0 \<le> floor_ms p"
  by (simp add: floor_ms_def)

lemma time_ms_counted:
  "time_ms (beside now) (counted fn) (c, s) = (fst (time_ms now fn s), (Suc c, snd (time_ms now fn s)))"
  by (simp add: time_ms_def beside_def counted_def split_def Let_def)

lemma bench_loop_counted:
  "bench_loop (beside now) (counted fn) reps i best (c, s) =
     (fst (bench_loop now fn reps i best s), (c + nat (reps - i), snd (bench_loop now fn reps i best s)))"
proof (induction now fn reps i best s arbitrary: c rule: bench_loop.induct)
  case (1 now fn reps i best s)
  show ?case
  proof (cases "i < reps")
    case True
    have n: "Suc c + nat (reps - (i + 1)) = c + nat (reps - i)"
      using True by simp
    have "bench_loop (beside now) (counted fn) reps i best (c, s) =
            bench_loop (beside now) (counted fn) reps (i + 1) (min best (fst (time_ms now fn s)))
              (Suc c, snd (time_ms now fn s))"
      using True by (simp add: bench_loop_step [of i reps "beside now"] time_ms_counted)
    also have "\<dots> = (fst (bench_loop now fn reps (i + 1) (min best (fst (time_ms now fn s))) (snd (time_ms now fn s))),
              (Suc c + nat (reps - (i + 1)),
               snd (bench_loop now fn reps (i + 1) (min best (fst (time_ms now fn s))) (snd (time_ms now fn s)))))"
      by (rule "1.IH" [OF True refl]) simp
    also have "bench_loop now fn reps (i + 1) (min best (fst (time_ms now fn s))) (snd (time_ms now fn s))
                = bench_loop now fn reps i best s"
      using True by (rule bench_loop_step [symmetric])
    finally show ?thesis
      unfolding n .
  next
    case False
    then show ?thesis by (simp add: bench_loop_done)
  qed
qed

section \<open>A monitored run, step by step\<close>

lemma bench_best_ms_3:
  assumes "time_ms now fn s = (d1, s1)"
    and "time_ms now fn s1 = (d2, s2)"
    and "time_ms now fn s2 = (d3, s3)"
  shows "bench_best_ms now fn default_reps s = (min (min (min LLONG_MAX d1) d2) d3, s3)"
  by (simp add: bench_best_ms_def default_reps_def bench_loop_step bench_loop_done assms)

lemma monitor_LPM:
  "LPM sys d x t w = (r, w') \<Longrightarrow>
   LPM (monitor sys) d x t (w, tr) = (r, (w', tr @ [Ev_LPM d x t r]))"
  by (simp add: monitor_def)

lemma monitor_UPM:
  "UPM sys d x t w = (r, w') \<Longrightarrow>
   UPM (monitor sys) d x t (w, tr) = (r, (w', tr @ [Ev_UPM d x t r]))"
  by (simp add: monitor_def)

lemma monitor_clock_now:
  "clock_now sys w = (t, w') \<Longrightarrow>
   clock_now (monitor sys) (w, tr) = (t, (w', tr @ [Ev_now t]))"
  by (simp add: monitor_def)

lemma monitor_vector_alloc:
  "vector_alloc sys n w = (e, w') \<Longrightarrow>
   vector_alloc (monitor sys) n (w, tr) = (e, (w', tr @ [Ev_alloc n]))"
  by (simp add: monitor_def)

lemma time_ms_monitor_LPM:
  assumes "clock_now sys w = (t0, w1)"
    and "LPM sys d x t w1 = (r, w2)"
    and "clock_now sys w2 = (t1, w3)"
  shows "time_ms (beside (clock_now (monitor sys))) (\<lambda>(v, w). LPM (monitor sys) d x t w) (v, (w, tr)) =
           (elapsed_ms (t0, t1), (r, (w3, tr @ [Ev_now t0, Ev_LPM d x t r, Ev_now t1])))"
  by (simp add: time_ms_def beside_def elapsed_ms_def
        monitor_clock_now [OF assms(1)] monitor_LPM [OF assms(2)] monitor_clock_now [OF assms(3)])

lemma time_ms_monitor_UPM:
  assumes "clock_now sys w = (t0, w1)"
    and "UPM sys d x t w1 = (r, w2)"
    and "clock_now sys w2 = (t1, w3)"
  shows "time_ms (beside (clock_now (monitor sys))) (\<lambda>(v, w). UPM (monitor sys) d x t w) (v, (w, tr)) =
           (elapsed_ms (t0, t1), (r, (w3, tr @ [Ev_now t0, Ev_UPM d x t r, Ev_now t1])))"
  by (simp add: time_ms_def beside_def elapsed_ms_def
        monitor_clock_now [OF assms(1)] monitor_UPM [OF assms(2)] monitor_clock_now [OF assms(3)])

lemma bench_monitor_LPM:
  assumes "clock_now sys w = (a1, p1)" "LPM sys d x t p1 = (v1, q1)" "clock_now sys q1 = (b1, u1)"
    and "clock_now sys u1 = (a2, p2)" "LPM sys d x t p2 = (v2, q2)" "clock_now sys q2 = (b2, u2)"
    and "clock_now sys u2 = (a3, p3)" "LPM sys d x t p3 = (v3, q3)" "clock_now sys q3 = (b3, u3)"
  shows "bench_best_ms (beside (clock_now (monitor sys))) (\<lambda>(v, w). LPM (monitor sys) d x t w)
           default_reps (v, (w, tr)) =
         (min (min (min LLONG_MAX (elapsed_ms (a1, b1))) (elapsed_ms (a2, b2))) (elapsed_ms (a3, b3)),
          (v3, (u3, tr @ [Ev_now a1, Ev_LPM d x t v1, Ev_now b1,
                          Ev_now a2, Ev_LPM d x t v2, Ev_now b2,
                          Ev_now a3, Ev_LPM d x t v3, Ev_now b3])))"
proof -
  note t1 = time_ms_monitor_LPM [OF assms(1-3), of v tr]
  note t2 = time_ms_monitor_LPM [OF assms(4-6), of v1 "tr @ [Ev_now a1, Ev_LPM d x t v1, Ev_now b1]"]
  note t3 = time_ms_monitor_LPM [OF assms(7-9), of v2
      "(tr @ [Ev_now a1, Ev_LPM d x t v1, Ev_now b1]) @ [Ev_now a2, Ev_LPM d x t v2, Ev_now b2]"]
  show ?thesis
    using bench_best_ms_3 [OF t1 t2 t3] by simp
qed

lemma bench_monitor_UPM:
  assumes "clock_now sys w = (a1, p1)" "UPM sys d x t p1 = (v1, q1)" "clock_now sys q1 = (b1, u1)"
    and "clock_now sys u1 = (a2, p2)" "UPM sys d x t p2 = (v2, q2)" "clock_now sys q2 = (b2, u2)"
    and "clock_now sys u2 = (a3, p3)" "UPM sys d x t p3 = (v3, q3)" "clock_now sys q3 = (b3, u3)"
  shows "bench_best_ms (beside (clock_now (monitor sys))) (\<lambda>(v, w). UPM (monitor sys) d x t w)
           default_reps (v, (w, tr)) =
         (min (min (min LLONG_MAX (elapsed_ms (a1, b1))) (elapsed_ms (a2, b2))) (elapsed_ms (a3, b3)),
          (v3, (u3, tr @ [Ev_now a1, Ev_UPM d x t v1, Ev_now b1,
                          Ev_now a2, Ev_UPM d x t v2, Ev_now b2,
                          Ev_now a3, Ev_UPM d x t v3, Ev_now b3])))"
proof -
  note t1 = time_ms_monitor_UPM [OF assms(1-3), of v tr]
  note t2 = time_ms_monitor_UPM [OF assms(4-6), of v1 "tr @ [Ev_now a1, Ev_UPM d x t v1, Ev_now b1]"]
  note t3 = time_ms_monitor_UPM [OF assms(7-9), of v2
      "(tr @ [Ev_now a1, Ev_UPM d x t v1, Ev_now b1]) @ [Ev_now a2, Ev_UPM d x t v2, Ev_now b2]"]
  show ?thesis
    using bench_best_ms_3 [OF t1 t2 t3] by simp
qed

lemma main_monitor_run:
  assumes args: "main_args lib argv = Inr (N, degree, target)"
    and alloc: "vector_alloc sys N w = (None, w0)"
    and x: "x = fst (fill_loop lib N 0 (replicate N double_0_0)
                      (normal_distribution lib double_0_0 double_1_0) (mt19937_64 lib 123456789))"
    and warm: "LPM sys degree x target w0 = (r1, w1)" "UPM sys degree x target w1 = (r2, w2)"
    and lpm: "clock_now sys w2 = (a1, p1)" "LPM sys degree x target p1 = (v1, q1)" "clock_now sys q1 = (b1, u1)"
      "clock_now sys u1 = (a2, p2)" "LPM sys degree x target p2 = (v2, q2)" "clock_now sys q2 = (b2, u2)"
      "clock_now sys u2 = (a3, p3)" "LPM sys degree x target p3 = (v3, q3)" "clock_now sys q3 = (b3, u3)"
    and upm: "clock_now sys u3 = (c1, p4)" "UPM sys degree x target p4 = (y1, q4)" "clock_now sys q4 = (d1, u4)"
      "clock_now sys u4 = (c2, p5)" "UPM sys degree x target p5 = (y2, q5)" "clock_now sys q5 = (d2, u5)"
      "clock_now sys u5 = (c3, p6)" "UPM sys degree x target p6 = (y3, q6)" "clock_now sys q6 = (d3, u6)"
    and lpm_ms: "lpm_ms = min (min (min LLONG_MAX (elapsed_ms (a1, b1))) (elapsed_ms (a2, b2))) (elapsed_ms (a3, b3))"
    and upm_ms: "upm_ms = min (min (min LLONG_MAX (elapsed_ms (c1, d1))) (elapsed_ms (c2, d2))) (elapsed_ms (c3, d3))"
  shows "main lib (monitor sys) argv (w, tr) =
     Returned 0
       \<lparr>fr_N = N, fr_degree = degree, fr_target = target, fr_x = x,
        fr_guard = double_add lib (double_add lib double_0_0 r1) r2,
        fr_lpm_val = v3, fr_upm_val = y3,
        fr_lpm_ms = lpm_ms, fr_upm_ms = upm_ms,
        fr_out =
          [Text (''===== LPM & UPM Performance (ms) ====='' @ [CHR 0x0A]),
           Text ''C++ (NNS) LPM: '', LongLong lpm_ms,
           Text '' ms, UPM: '', LongLong upm_ms, Text ('' ms'' @ [CHR 0x0A]),
           Text ''The sample size when '', SizeT N, Text [CHR 0x0A, CHR 0x0A],
           SetPrecision 10,
           Text ''Results (degree='', Double degree,
           Text '', target='', Double target, Text ('')'' @ [CHR 0x0A]),
           Text ''LPM = '', Double v3, Text [CHR 0x0A],
           Text ''UPM = '', Double y3, Text [CHR 0x0A]],
        fr_world =
          (u6, tr @ [Ev_alloc N,
                     Ev_LPM degree x target r1, Ev_UPM degree x target r2,
                     Ev_now a1, Ev_LPM degree x target v1, Ev_now b1,
                     Ev_now a2, Ev_LPM degree x target v2, Ev_now b2,
                     Ev_now a3, Ev_LPM degree x target v3, Ev_now b3,
                     Ev_now c1, Ev_UPM degree x target y1, Ev_now d1,
                     Ev_now c2, Ev_UPM degree x target y2, Ev_now d2,
                     Ev_now c3, Ev_UPM degree x target y3, Ev_now d3])\<rparr>"
proof -
  obtain dist' rng' where fill:
    "fill_loop lib N 0 (replicate N double_0_0)
       (normal_distribution lib double_0_0 double_1_0) (mt19937_64 lib 123456789) = (x, dist', rng')"
    unfolding x by (metis prod.collapse)
  note m0 = monitor_vector_alloc [OF alloc, of tr]
  note m1 = monitor_LPM [OF warm(1), of "tr @ [Ev_alloc N]"]
  note m2 = monitor_UPM [OF warm(2), of "tr @ [Ev_alloc N, Ev_LPM degree x target r1]"]
  note m3 = bench_monitor_LPM [OF lpm, of double_0_0
      "tr @ [Ev_alloc N, Ev_LPM degree x target r1, Ev_UPM degree x target r2]"]
  note m4 = bench_monitor_UPM [OF upm, of double_0_0
      "tr @ [Ev_alloc N, Ev_LPM degree x target r1, Ev_UPM degree x target r2,
        Ev_now a1, Ev_LPM degree x target v1, Ev_now b1,
        Ev_now a2, Ev_LPM degree x target v2, Ev_now b2,
        Ev_now a3, Ev_LPM degree x target v3, Ev_now b3]"]
  show ?thesis
    unfolding main_def args
    by (simp add: m0 fill m1 m2 m3 m4 lpm_ms upm_ms)
qed

section \<open>What a run of the driver is\<close>

lemma main_monitor_Returned:
  assumes "main lib (monitor sys) argv (w, tr) = Returned rc fr"
  obtains N degree target w0 x r1 w1 r2 w2
    a1 p1 v1 q1 b1 u1 a2 p2 v2 q2 b2 u2 a3 p3 v3 q3 b3 u3
    c1 p4 y1 q4 d1 u4 c2 p5 y2 q5 d2 u5 c3 p6 y3 q6 d3 u6 lpm_ms upm_ms
  where "main_args lib argv = Inr (N, degree, target)"
    and "vector_alloc sys N w = (None, w0)"
    and "x = fst (fill_loop lib N 0 (replicate N double_0_0)
                   (normal_distribution lib double_0_0 double_1_0) (mt19937_64 lib 123456789))"
    and "LPM sys degree x target w0 = (r1, w1)" "UPM sys degree x target w1 = (r2, w2)"
    and "clock_now sys w2 = (a1, p1)" "LPM sys degree x target p1 = (v1, q1)" "clock_now sys q1 = (b1, u1)"
      "clock_now sys u1 = (a2, p2)" "LPM sys degree x target p2 = (v2, q2)" "clock_now sys q2 = (b2, u2)"
      "clock_now sys u2 = (a3, p3)" "LPM sys degree x target p3 = (v3, q3)" "clock_now sys q3 = (b3, u3)"
    and "clock_now sys u3 = (c1, p4)" "UPM sys degree x target p4 = (y1, q4)" "clock_now sys q4 = (d1, u4)"
      "clock_now sys u4 = (c2, p5)" "UPM sys degree x target p5 = (y2, q5)" "clock_now sys q5 = (d2, u5)"
      "clock_now sys u5 = (c3, p6)" "UPM sys degree x target p6 = (y3, q6)" "clock_now sys q6 = (d3, u6)"
    and "lpm_ms = min (min (min LLONG_MAX (elapsed_ms (a1, b1))) (elapsed_ms (a2, b2))) (elapsed_ms (a3, b3))"
    and "upm_ms = min (min (min LLONG_MAX (elapsed_ms (c1, d1))) (elapsed_ms (c2, d2))) (elapsed_ms (c3, d3))"
    and "rc = 0"
    and "fr =
       \<lparr>fr_N = N, fr_degree = degree, fr_target = target, fr_x = x,
        fr_guard = double_add lib (double_add lib double_0_0 r1) r2,
        fr_lpm_val = v3, fr_upm_val = y3,
        fr_lpm_ms = lpm_ms, fr_upm_ms = upm_ms,
        fr_out =
          [Text (''===== LPM & UPM Performance (ms) ====='' @ [CHR 0x0A]),
           Text ''C++ (NNS) LPM: '', LongLong lpm_ms,
           Text '' ms, UPM: '', LongLong upm_ms, Text ('' ms'' @ [CHR 0x0A]),
           Text ''The sample size when '', SizeT N, Text [CHR 0x0A, CHR 0x0A],
           SetPrecision 10,
           Text ''Results (degree='', Double degree,
           Text '', target='', Double target, Text ('')'' @ [CHR 0x0A]),
           Text ''LPM = '', Double v3, Text [CHR 0x0A],
           Text ''UPM = '', Double y3, Text [CHR 0x0A]],
        fr_world =
          (u6, tr @ [Ev_alloc N,
                     Ev_LPM degree x target r1, Ev_UPM degree x target r2,
                     Ev_now a1, Ev_LPM degree x target v1, Ev_now b1,
                     Ev_now a2, Ev_LPM degree x target v2, Ev_now b2,
                     Ev_now a3, Ev_LPM degree x target v3, Ev_now b3,
                     Ev_now c1, Ev_UPM degree x target y1, Ev_now d1,
                     Ev_now c2, Ev_UPM degree x target y2, Ev_now d2,
                     Ev_now c3, Ev_UPM degree x target y3, Ev_now d3])\<rparr>"
proof -
  from assms obtain N degree target where args: "main_args lib argv = Inr (N, degree, target)"
    by (cases "main_args lib argv") (auto simp: main_def)
  obtain e w0 where alloc0: "vector_alloc sys N w = (e, w0)"
    by (cases "vector_alloc sys N w") auto
  have "e = None"
    using assms by (cases e) (simp_all add: main_def args monitor_vector_alloc [OF alloc0])
  with alloc0 have alloc: "vector_alloc sys N w = (None, w0)"
    by simp
  define x where x: "x = fst (fill_loop lib N 0 (replicate N double_0_0)
                   (normal_distribution lib double_0_0 double_1_0) (mt19937_64 lib 123456789))"
  obtain r1 w1 where k1: "LPM sys degree x target w0 = (r1, w1)" by (rule prod.exhaust)
  obtain r2 w2 where k2: "UPM sys degree x target w1 = (r2, w2)" by (rule prod.exhaust)
  obtain a1 p1 where l1: "clock_now sys w2 = (a1, p1)" by (rule prod.exhaust)
  obtain v1 q1 where l2: "LPM sys degree x target p1 = (v1, q1)" by (rule prod.exhaust)
  obtain b1 u1 where l3: "clock_now sys q1 = (b1, u1)" by (rule prod.exhaust)
  obtain a2 p2 where l4: "clock_now sys u1 = (a2, p2)" by (rule prod.exhaust)
  obtain v2 q2 where l5: "LPM sys degree x target p2 = (v2, q2)" by (rule prod.exhaust)
  obtain b2 u2 where l6: "clock_now sys q2 = (b2, u2)" by (rule prod.exhaust)
  obtain a3 p3 where l7: "clock_now sys u2 = (a3, p3)" by (rule prod.exhaust)
  obtain v3 q3 where l8: "LPM sys degree x target p3 = (v3, q3)" by (rule prod.exhaust)
  obtain b3 u3 where l9: "clock_now sys q3 = (b3, u3)" by (rule prod.exhaust)
  obtain c1 p4 where m1: "clock_now sys u3 = (c1, p4)" by (rule prod.exhaust)
  obtain y1 q4 where m2: "UPM sys degree x target p4 = (y1, q4)" by (rule prod.exhaust)
  obtain d1 u4 where m3: "clock_now sys q4 = (d1, u4)" by (rule prod.exhaust)
  obtain c2 p5 where m4: "clock_now sys u4 = (c2, p5)" by (rule prod.exhaust)
  obtain y2 q5 where m5: "UPM sys degree x target p5 = (y2, q5)" by (rule prod.exhaust)
  obtain d2 u5 where m6: "clock_now sys q5 = (d2, u5)" by (rule prod.exhaust)
  obtain c3 p6 where m7: "clock_now sys u5 = (c3, p6)" by (rule prod.exhaust)
  obtain y3 q6 where m8: "UPM sys degree x target p6 = (y3, q6)" by (rule prod.exhaust)
  obtain d3 u6 where m9: "clock_now sys q6 = (d3, u6)" by (rule prod.exhaust)
  note run = main_monitor_run [OF args alloc x k1 k2 l1 l2 l3 l4 l5 l6 l7 l8 l9
      m1 m2 m3 m4 m5 m6 m7 m8 m9 refl refl, of tr]
  show thesis
    by (rule that [OF args alloc x k1 k2 l1 l2 l3 l4 l5 l6 l7 l8 l9
          m1 m2 m3 m4 m5 m6 m7 m8 m9 refl refl])
      (use assms run in simp_all)
qed

lemma main_monitor_Terminated:
  assumes "main lib (monitor sys) argv (w, tr) = Terminated e out wt"
  shows "out = [] \<and>
         (main_args lib argv = Inl e \<and> wt = (w, tr) \<or>
          (\<exists>N degree target w0.
             main_args lib argv = Inr (N, degree, target) \<and>
             vector_alloc sys N w = (Some e, w0) \<and> wt = (w0, tr @ [Ev_alloc N])))"
proof (cases "main_args lib argv")
  case (Inl e')
  with assms show ?thesis by (simp add: main_def)
next
  case (Inr params)
  obtain N degree target where params: "params = (N, degree, target)"
    by (cases params) auto
  obtain e' w0 where alloc0: "vector_alloc sys N w = (e', w0)"
    by (cases "vector_alloc sys N w") auto
  show ?thesis
  proof (cases e')
    case None
    obtain rc fr where "main lib (monitor sys) argv (w, tr) = Returned rc fr"
      using Inr params alloc0 None
      by (simp add: main_def monitor_vector_alloc [OF alloc0] split_def Let_def)
    with assms show ?thesis by simp
  next
    case (Some err)
    with assms show ?thesis
      by (simp add: main_def Inr params monitor_vector_alloc [OF alloc0] alloc0)
  qed
qed


lemma main_monitor_trace:
  assumes "main lib (monitor sys) argv (w, tr) = Returned rc fr"
  obtains N degree target x r1 r2 a1 v1 b1 a2 v2 b2 a3 v3 b3 c1 y1 d1 c2 y2 d2 c3 y3 d3
  where "rc = 0"
    and "main_args lib argv = Inr (N, degree, target)"
    and "fr_N fr = N" "fr_degree fr = degree" "fr_target fr = target" "fr_x fr = x"
    and "x = fst (fill_loop lib N 0 (replicate N double_0_0)
                   (normal_distribution lib double_0_0 double_1_0) (mt19937_64 lib 123456789))"
    and "fr_guard fr = double_add lib (double_add lib double_0_0 r1) r2"
    and "fr_lpm_val fr = v3" "fr_upm_val fr = y3"
    and "fr_lpm_ms fr =
           min (min (min LLONG_MAX (elapsed_ms (a1, b1))) (elapsed_ms (a2, b2))) (elapsed_ms (a3, b3))"
    and "fr_upm_ms fr =
           min (min (min LLONG_MAX (elapsed_ms (c1, d1))) (elapsed_ms (c2, d2))) (elapsed_ms (c3, d3))"
    and "fr_out fr =
          [Text (''===== LPM & UPM Performance (ms) ====='' @ [CHR 0x0A]),
           Text ''C++ (NNS) LPM: '', LongLong (fr_lpm_ms fr),
           Text '' ms, UPM: '', LongLong (fr_upm_ms fr), Text ('' ms'' @ [CHR 0x0A]),
           Text ''The sample size when '', SizeT N, Text [CHR 0x0A, CHR 0x0A],
           SetPrecision 10,
           Text ''Results (degree='', Double degree,
           Text '', target='', Double target, Text ('')'' @ [CHR 0x0A]),
           Text ''LPM = '', Double v3, Text [CHR 0x0A],
           Text ''UPM = '', Double y3, Text [CHR 0x0A]]"
    and "snd (fr_world fr) =
           tr @ [Ev_alloc N,
                 Ev_LPM degree x target r1, Ev_UPM degree x target r2,
                 Ev_now a1, Ev_LPM degree x target v1, Ev_now b1,
                 Ev_now a2, Ev_LPM degree x target v2, Ev_now b2,
                 Ev_now a3, Ev_LPM degree x target v3, Ev_now b3,
                 Ev_now c1, Ev_UPM degree x target y1, Ev_now d1,
                 Ev_now c2, Ev_UPM degree x target y2, Ev_now d2,
                 Ev_now c3, Ev_UPM degree x target y3, Ev_now d3]"
proof -
  from assms obtain N degree target w0 x r1 w1 r2 w2
    a1 p1 v1 q1 b1 u1 a2 p2 v2 q2 b2 u2 a3 p3 v3 q3 b3 u3
    c1 p4 y1 q4 d1 u4 c2 p5 y2 q5 d2 u5 c3 p6 y3 q6 d3 u6 lpm_ms upm_ms
    where args: "main_args lib argv = Inr (N, degree, target)"
      and x: "x = fst (fill_loop lib N 0 (replicate N double_0_0)
                   (normal_distribution lib double_0_0 double_1_0) (mt19937_64 lib 123456789))"
      and lpm_ms: "lpm_ms = min (min (min LLONG_MAX (elapsed_ms (a1, b1))) (elapsed_ms (a2, b2))) (elapsed_ms (a3, b3))"
      and upm_ms: "upm_ms = min (min (min LLONG_MAX (elapsed_ms (c1, d1))) (elapsed_ms (c2, d2))) (elapsed_ms (c3, d3))"
      and rc: "rc = 0"
      and fr: "fr =
       \<lparr>fr_N = N, fr_degree = degree, fr_target = target, fr_x = x,
        fr_guard = double_add lib (double_add lib double_0_0 r1) r2,
        fr_lpm_val = v3, fr_upm_val = y3,
        fr_lpm_ms = lpm_ms, fr_upm_ms = upm_ms,
        fr_out =
          [Text (''===== LPM & UPM Performance (ms) ====='' @ [CHR 0x0A]),
           Text ''C++ (NNS) LPM: '', LongLong lpm_ms,
           Text '' ms, UPM: '', LongLong upm_ms, Text ('' ms'' @ [CHR 0x0A]),
           Text ''The sample size when '', SizeT N, Text [CHR 0x0A, CHR 0x0A],
           SetPrecision 10,
           Text ''Results (degree='', Double degree,
           Text '', target='', Double target, Text ('')'' @ [CHR 0x0A]),
           Text ''LPM = '', Double v3, Text [CHR 0x0A],
           Text ''UPM = '', Double y3, Text [CHR 0x0A]],
        fr_world =
          (u6, tr @ [Ev_alloc N,
                     Ev_LPM degree x target r1, Ev_UPM degree x target r2,
                     Ev_now a1, Ev_LPM degree x target v1, Ev_now b1,
                     Ev_now a2, Ev_LPM degree x target v2, Ev_now b2,
                     Ev_now a3, Ev_LPM degree x target v3, Ev_now b3,
                     Ev_now c1, Ev_UPM degree x target y1, Ev_now d1,
                     Ev_now c2, Ev_UPM degree x target y2, Ev_now d2,
                     Ev_now c3, Ev_UPM degree x target y3, Ev_now d3])\<rparr>"
    by (rule main_monitor_Returned)
  have p1: "fr_N fr = N" and p2: "fr_degree fr = degree" and p3: "fr_target fr = target"
    and p4: "fr_x fr = x"
    and p5: "fr_guard fr = double_add lib (double_add lib double_0_0 r1) r2"
    and p6: "fr_lpm_val fr = v3" and p7: "fr_upm_val fr = y3"
    and p8: "fr_lpm_ms fr =
           min (min (min LLONG_MAX (elapsed_ms (a1, b1))) (elapsed_ms (a2, b2))) (elapsed_ms (a3, b3))"
    and p9: "fr_upm_ms fr =
           min (min (min LLONG_MAX (elapsed_ms (c1, d1))) (elapsed_ms (c2, d2))) (elapsed_ms (c3, d3))"
    by (simp_all add: fr lpm_ms upm_ms)
  have p10: "fr_out fr =
          [Text (''===== LPM & UPM Performance (ms) ====='' @ [CHR 0x0A]),
           Text ''C++ (NNS) LPM: '', LongLong (fr_lpm_ms fr),
           Text '' ms, UPM: '', LongLong (fr_upm_ms fr), Text ('' ms'' @ [CHR 0x0A]),
           Text ''The sample size when '', SizeT N, Text [CHR 0x0A, CHR 0x0A],
           SetPrecision 10,
           Text ''Results (degree='', Double degree,
           Text '', target='', Double target, Text ('')'' @ [CHR 0x0A]),
           Text ''LPM = '', Double v3, Text [CHR 0x0A],
           Text ''UPM = '', Double y3, Text [CHR 0x0A]]"
    by (simp add: fr)
  have p11: "snd (fr_world fr) =
           tr @ [Ev_alloc N,
                 Ev_LPM degree x target r1, Ev_UPM degree x target r2,
                 Ev_now a1, Ev_LPM degree x target v1, Ev_now b1,
                 Ev_now a2, Ev_LPM degree x target v2, Ev_now b2,
                 Ev_now a3, Ev_LPM degree x target v3, Ev_now b3,
                 Ev_now c1, Ev_UPM degree x target y1, Ev_now d1,
                 Ev_now c2, Ev_UPM degree x target y2, Ev_now d2,
                 Ev_now c3, Ev_UPM degree x target y3, Ev_now d3]"
    by (simp add: fr)
  show thesis
    by (rule that [OF rc args p1 p2 p3 p4 x p5 p6 p7 p8 p9 p10 p11])
qed


lemma length_fill_loop:
  "length (fst (fill_loop lib N i x dist rng)) = length x"
proof (induction lib N i x dist rng rule: fill_loop.induct)
  case (1 lib N i x dist rng)
  show ?case
  proof (cases "i < N")
    case True
    obtain v dist' rng' where d: "dist_call lib dist rng = (v, dist', rng')"
      by (cases "dist_call lib dist rng") auto
    have "fill_loop lib N i x dist rng = fill_loop lib N (i + 1) (x[i := v]) dist' rng'"
      using True d by (subst fill_loop.simps) simp
    moreover have "length (fst (fill_loop lib N (i + 1) (x[i := v]) dist' rng')) = length (x[i := v])"
      using True d by (intro "1.IH") simp_all
    ultimately show ?thesis by simp
  next
    case False
    then show ?thesis by (subst fill_loop.simps) simp
  qed
qed

lemma main_Returned:
  assumes "main lib sys argv w = Returned rc fr"
  shows "rc = 0 \<and> main_args lib argv = Inr (fr_N fr, fr_degree fr, fr_target fr) \<and>
         fr_x fr = fst (fill_loop lib (fr_N fr) 0 (replicate (fr_N fr) double_0_0)
                     (normal_distribution lib double_0_0 double_1_0) (mt19937_64 lib 123456789))"
  using assms
  by (auto simp: main_def Let_def split: sum.splits prod.splits option.splits)

lemma main_args_Inl:
  "main_args lib argv = Inl e \<Longrightarrow> main lib sys argv w = Terminated e [] w"
  by (simp add: main_def)

section \<open>A run without the monitor\<close>

lemma time_ms_kernel:
  assumes "clock w = (t0, w1)" and "K w1 = (r, w2)" and "clock w2 = (t1, w3)"
  shows "time_ms (beside clock) (\<lambda>(v, w). K w) (v, w) = (elapsed_ms (t0, t1), (r, w3))"
  by (simp add: time_ms_def beside_def elapsed_ms_def assms)

lemma bench_kernel:
  assumes "clock w = (a1, p1)" "K p1 = (v1, q1)" "clock q1 = (b1, u1)"
    and "clock u1 = (a2, p2)" "K p2 = (v2, q2)" "clock q2 = (b2, u2)"
    and "clock u2 = (a3, p3)" "K p3 = (v3, q3)" "clock q3 = (b3, u3)"
  shows "bench_best_ms (beside clock) (\<lambda>(v, w). K w) default_reps (v, w) =
         (min (min (min LLONG_MAX (elapsed_ms (a1, b1))) (elapsed_ms (a2, b2))) (elapsed_ms (a3, b3)),
          (v3, u3))"
proof -
  note t1 = time_ms_kernel [where clock = clock and K = K and v = v, OF assms(1-3)]
  note t2 = time_ms_kernel [where clock = clock and K = K and v = v1, OF assms(4-6)]
  note t3 = time_ms_kernel [where clock = clock and K = K and v = v2, OF assms(7-9)]
  show ?thesis
    by (rule bench_best_ms_3 [OF t1 t2 t3])
qed

lemma main_run:
  assumes args: "main_args lib argv = Inr (N, degree, target)"
    and alloc: "vector_alloc sys N w = (None, w0)"
    and x: "x = fst (fill_loop lib N 0 (replicate N double_0_0)
                      (normal_distribution lib double_0_0 double_1_0) (mt19937_64 lib 123456789))"
    and warm: "LPM sys degree x target w0 = (r1, w1)" "UPM sys degree x target w1 = (r2, w2)"
    and lpm: "clock_now sys w2 = (a1, p1)" "LPM sys degree x target p1 = (v1, q1)" "clock_now sys q1 = (b1, u1)"
      "clock_now sys u1 = (a2, p2)" "LPM sys degree x target p2 = (v2, q2)" "clock_now sys q2 = (b2, u2)"
      "clock_now sys u2 = (a3, p3)" "LPM sys degree x target p3 = (v3, q3)" "clock_now sys q3 = (b3, u3)"
    and upm: "clock_now sys u3 = (c1, p4)" "UPM sys degree x target p4 = (y1, q4)" "clock_now sys q4 = (d1, u4)"
      "clock_now sys u4 = (c2, p5)" "UPM sys degree x target p5 = (y2, q5)" "clock_now sys q5 = (d2, u5)"
      "clock_now sys u5 = (c3, p6)" "UPM sys degree x target p6 = (y3, q6)" "clock_now sys q6 = (d3, u6)"
    and lpm_ms: "lpm_ms = min (min (min LLONG_MAX (elapsed_ms (a1, b1))) (elapsed_ms (a2, b2))) (elapsed_ms (a3, b3))"
    and upm_ms: "upm_ms = min (min (min LLONG_MAX (elapsed_ms (c1, d1))) (elapsed_ms (c2, d2))) (elapsed_ms (c3, d3))"
  shows "main lib sys argv w =
     Returned 0
       \<lparr>fr_N = N, fr_degree = degree, fr_target = target, fr_x = x,
        fr_guard = double_add lib (double_add lib double_0_0 r1) r2,
        fr_lpm_val = v3, fr_upm_val = y3,
        fr_lpm_ms = lpm_ms, fr_upm_ms = upm_ms,
        fr_out =
          [Text (''===== LPM & UPM Performance (ms) ====='' @ [CHR 0x0A]),
           Text ''C++ (NNS) LPM: '', LongLong lpm_ms,
           Text '' ms, UPM: '', LongLong upm_ms, Text ('' ms'' @ [CHR 0x0A]),
           Text ''The sample size when '', SizeT N, Text [CHR 0x0A, CHR 0x0A],
           SetPrecision 10,
           Text ''Results (degree='', Double degree,
           Text '', target='', Double target, Text ('')'' @ [CHR 0x0A]),
           Text ''LPM = '', Double v3, Text [CHR 0x0A],
           Text ''UPM = '', Double y3, Text [CHR 0x0A]],
        fr_world = u6\<rparr>"
proof -
  obtain dist' rng' where fill:
    "fill_loop lib N 0 (replicate N double_0_0)
       (normal_distribution lib double_0_0 double_1_0) (mt19937_64 lib 123456789) = (x, dist', rng')"
    unfolding x by (metis prod.collapse)
  note m3 = bench_kernel [where clock = "clock_now sys" and K = "LPM sys degree x target"
      and v = double_0_0, OF lpm]
  note m4 = bench_kernel [where clock = "clock_now sys" and K = "UPM sys degree x target"
      and v = double_0_0, OF upm]
  show ?thesis
    unfolding main_def args
    by (simp add: alloc fill warm m3 m4 lpm_ms upm_ms)
qed

text \<open>Monitoring changes nothing but the log: with the log dropped, the run is the same.\<close>

lemma monitor_transparent:
  "unmonitored (main lib (monitor sys) argv (w, tr)) = main lib sys argv w"
proof (cases "main_args lib argv")
  case (Inl e)
  then show ?thesis by (simp add: main_def)
next
  case (Inr params)
  obtain N degree target where args: "main_args lib argv = Inr (N, degree, target)"
    using Inr by (cases params) auto
  obtain e w0 where alloc0: "vector_alloc sys N w = (e, w0)" by (rule prod.exhaust)
  show ?thesis
  proof (cases e)
    case (Some err)
    then show ?thesis
      by (simp add: main_def args alloc0 monitor_vector_alloc [OF alloc0])
  next
    case None
    with alloc0 have alloc: "vector_alloc sys N w = (None, w0)" by simp
    define x where x: "x = fst (fill_loop lib N 0 (replicate N double_0_0)
                   (normal_distribution lib double_0_0 double_1_0) (mt19937_64 lib 123456789))"
    obtain r1 w1 where k1: "LPM sys degree x target w0 = (r1, w1)" by (rule prod.exhaust)
    obtain r2 w2 where k2: "UPM sys degree x target w1 = (r2, w2)" by (rule prod.exhaust)
    obtain a1 p1 where l1: "clock_now sys w2 = (a1, p1)" by (rule prod.exhaust)
    obtain v1 q1 where l2: "LPM sys degree x target p1 = (v1, q1)" by (rule prod.exhaust)
    obtain b1 u1 where l3: "clock_now sys q1 = (b1, u1)" by (rule prod.exhaust)
    obtain a2 p2 where l4: "clock_now sys u1 = (a2, p2)" by (rule prod.exhaust)
    obtain v2 q2 where l5: "LPM sys degree x target p2 = (v2, q2)" by (rule prod.exhaust)
    obtain b2 u2 where l6: "clock_now sys q2 = (b2, u2)" by (rule prod.exhaust)
    obtain a3 p3 where l7: "clock_now sys u2 = (a3, p3)" by (rule prod.exhaust)
    obtain v3 q3 where l8: "LPM sys degree x target p3 = (v3, q3)" by (rule prod.exhaust)
    obtain b3 u3 where l9: "clock_now sys q3 = (b3, u3)" by (rule prod.exhaust)
    obtain c1 p4 where m1: "clock_now sys u3 = (c1, p4)" by (rule prod.exhaust)
    obtain y1 q4 where m2: "UPM sys degree x target p4 = (y1, q4)" by (rule prod.exhaust)
    obtain d1 u4 where m3: "clock_now sys q4 = (d1, u4)" by (rule prod.exhaust)
    obtain c2 p5 where m4: "clock_now sys u4 = (c2, p5)" by (rule prod.exhaust)
    obtain y2 q5 where m5: "UPM sys degree x target p5 = (y2, q5)" by (rule prod.exhaust)
    obtain d2 u5 where m6: "clock_now sys q5 = (d2, u5)" by (rule prod.exhaust)
    obtain c3 p6 where m7: "clock_now sys u5 = (c3, p6)" by (rule prod.exhaust)
    obtain y3 q6 where m8: "UPM sys degree x target p6 = (y3, q6)" by (rule prod.exhaust)
    obtain d3 u6 where m9: "clock_now sys q6 = (d3, u6)" by (rule prod.exhaust)
    note mon = main_monitor_run [OF args alloc x k1 k2 l1 l2 l3 l4 l5 l6 l7 l8 l9
        m1 m2 m3 m4 m5 m6 m7 m8 m9 refl refl, of tr]
    note plain = main_run [OF args alloc x k1 k2 l1 l2 l3 l4 l5 l6 l7 l8 l9
        m1 m2 m3 m4 m5 m6 m7 m8 m9 refl refl]
    show ?thesis
      unfolding mon plain by simp
  qed
qed

section \<open>The minimum of the timed executions\<close>

lemma floor_ms_elapsed: "0 \<le> floor_ms p \<Longrightarrow> elapsed_ms p = floor_ms p"
proof -
  assume "0 \<le> floor_ms p"
  then have "0 \<le> sint (snd p) - sint (fst p)"
    unfolding floor_ms_def by (simp add: pos_imp_zdiv_nonneg_iff)
  then show ?thesis by (simp add: elapsed_ms_floor)
qed

lemma foldl_min_bounded:
  "ds \<noteq> [] \<Longrightarrow> \<forall>d \<in> set ds. d \<le> b \<Longrightarrow> foldl min (b :: int) ds = Min (set ds)"
proof -
  assume ne: "ds \<noteq> []" and le: "\<forall>d \<in> set ds. d \<le> b"
  have "Min (insert b (set ds)) = min b (Min (set ds))"
    using ne by simp
  moreover have "Min (set ds) \<le> b"
    using ne le by (meson List.finite_set Min_in order_refl set_empty)
  ultimately show ?thesis
    by (simp add: foldl_min_Min min_def)
qed

lemma bench_best_ms_counted:
  "bench_best_ms (beside now) (counted fn) reps (c, s) =
     (fst (bench_best_ms now fn reps s), (c + nat reps, snd (bench_best_ms now fn reps s)))"
  by (simp add: bench_best_ms_def bench_loop_counted)

text \<open>
  C1: \<open>bench_best_ms\<close> executes the computation \<open>reps\<close> times, one after the other
  (a counter that only the computation increments goes up by \<open>reps\<close>, and the state is
  the one that \<open>reps\<close> successive timed executions leave). With \<open>reps \<ge> 1\<close> and a
  clock that does not run backwards, it returns the minimum of the \<open>reps\<close> elapsed times,
  each rounded down to whole milliseconds (for every \<open>reps\<close>, the minimum of those and
  \<open>LLONG_MAX\<close>, the value it starts from); when three successive executions take 5 ms, 2 ms
  and 8 ms (rounded down), the result with \<open>reps = 3\<close> is 2.
\<close>

theorem bench_best_ms_minimum:
  "fst (snd (bench_best_ms (beside now) (counted fn) reps (c, s))) = c + nat reps \<and>
   snd (bench_best_ms now fn reps s) = after_runs now fn (nat reps) s \<and>
   (1 \<le> reps \<longrightarrow>
    (\<forall>p \<in> set (timed_runs now fn (nat reps) s). sint (fst p) \<le> sint (snd p)) \<longrightarrow>
      fst (bench_best_ms now fn reps s) = Min (set (map floor_ms (timed_runs now fn (nat reps) s)))) \<and>
   ((\<forall>p \<in> set (timed_runs now fn (nat reps) s). sint (fst p) \<le> sint (snd p)) \<longrightarrow>
      fst (bench_best_ms now fn reps s) =
        Min (insert LLONG_MAX (set (map floor_ms (timed_runs now fn (nat reps) s))))) \<and>
   (map floor_ms (timed_runs now fn 3 s) = [5, 2, 8] \<longrightarrow> fst (bench_best_ms now fn 3 s) = 2)"
proof (intro conjI impI)
  show "fst (snd (bench_best_ms (beside now) (counted fn) reps (c, s))) = c + nat reps"
    by (simp add: bench_best_ms_counted)
  show "snd (bench_best_ms now fn reps s) = after_runs now fn (nat reps) s"
    by (simp add: bench_best_ms_runs)
next
  assume reps: "1 \<le> reps"
    and mono: "\<forall>p \<in> set (timed_runs now fn (nat reps) s). sint (fst p) \<le> sint (snd p)"
  let ?runs = "timed_runs now fn (nat reps) s"
  have "length ?runs = nat reps"
    by (rule length_timed_runs)
  with reps have ne: "map elapsed_ms ?runs \<noteq> []"
    by auto
  have le: "\<forall>d \<in> set (map elapsed_ms ?runs). d \<le> LLONG_MAX"
    using elapsed_ms_less by (auto intro: less_imp_le)
  have m: "map elapsed_ms ?runs = map floor_ms ?runs"
    using mono by (simp add: elapsed_ms_floor)
  have "fst (bench_best_ms now fn reps s) = foldl min LLONG_MAX (map elapsed_ms ?runs)"
    by (simp add: bench_best_ms_runs)
  also have "\<dots> = Min (set (map elapsed_ms ?runs))"
    by (rule foldl_min_bounded [OF ne le])
  also have "\<dots> = Min (set (map floor_ms ?runs))"
    by (simp only: m)
  finally show "fst (bench_best_ms now fn reps s) = Min (set (map floor_ms ?runs))" .
next
  assume mono: "\<forall>p \<in> set (timed_runs now fn (nat reps) s). sint (fst p) \<le> sint (snd p)"
  let ?runs = "timed_runs now fn (nat reps) s"
  have m: "map elapsed_ms ?runs = map floor_ms ?runs"
    using mono by (simp add: elapsed_ms_floor)
  have "fst (bench_best_ms now fn reps s) = foldl min LLONG_MAX (map elapsed_ms ?runs)"
    by (simp add: bench_best_ms_runs)
  also have "\<dots> = Min (insert LLONG_MAX (set (map elapsed_ms ?runs)))"
    by (rule foldl_min_Min)
  also have "\<dots> = Min (insert LLONG_MAX (set (map floor_ms ?runs)))"
    by (simp only: m)
  finally show "fst (bench_best_ms now fn reps s) = Min (insert LLONG_MAX (set (map floor_ms ?runs)))" .
next
  assume eq: "map floor_ms (timed_runs now fn 3 s) = [5, 2, 8]"
  let ?runs = "timed_runs now fn 3 s"
  have "\<forall>p \<in> set ?runs. 0 \<le> floor_ms p"
  proof
    fix p assume "p \<in> set ?runs"
    then have "floor_ms p \<in> set (map floor_ms ?runs)" by simp
    then show "0 \<le> floor_ms p" unfolding eq by auto
  qed
  then have "map elapsed_ms ?runs = map floor_ms ?runs"
    by (simp add: floor_ms_elapsed)
  then show "fst (bench_best_ms now fn 3 s) = 2"
    by (simp add: bench_best_ms_runs eq LLONG_MAX_def)
qed

lemma td_runs:
  "timed_runs td_now td_fn 3 (1000, [5300000, 2999999, 8000001]) =
     [(1000, 5301000), (5301000, 8300999), (8300999, 16301000)]"
  by (simp add: eval_nat_numeral td_now_def)

theorem bench_best_ms_minimum_witness:
  "(1 :: int) \<le> 3 \<and>
   timed_runs td_now td_fn (nat 3) (1000, [5300000, 2999999, 8000001]) =
     [(1000, 5301000), (5301000, 8300999), (8300999, 16301000)] \<and>
   sint (1000 :: time_point) \<le> sint (5301000 :: time_point) \<and>
   sint (5301000 :: time_point) \<le> sint (8300999 :: time_point) \<and>
   sint (8300999 :: time_point) \<le> sint (16301000 :: time_point) \<and>
   map floor_ms (timed_runs td_now td_fn 3 (1000, [5300000, 2999999, 8000001])) = [5, 2, 8] \<and>
   fst (bench_best_ms td_now td_fn 3 (1000, [5300000, 2999999, 8000001])) = 2 \<and>
   fst (snd (bench_best_ms (beside td_now) (counted td_fn) 3 (0, (1000, [5300000, 2999999, 8000001])))) = 3"
proof -
  let ?s = "(1000 :: time_point, [5300000, 2999999, 8000001 :: time_point])"
  have mono: "\<forall>p \<in> set (timed_runs td_now td_fn (nat 3) ?s). sint (fst p) \<le> sint (snd p)"
    by (simp add: td_runs)
  have fl: "map floor_ms (timed_runs td_now td_fn 3 ?s) = [5, 2, 8]"
    by (simp add: td_runs floor_ms_def)
  show ?thesis
    using bench_best_ms_minimum [of td_now td_fn 3 0 ?s] mono fl by (simp add: td_runs)
qed

section \<open>Timings are not negative\<close>

lemma foldl_min_nonneg: "0 \<le> (b :: int) \<Longrightarrow> \<forall>d \<in> set ds. 0 \<le> d \<Longrightarrow> 0 \<le> foldl min b ds"
  by (induction ds arbitrary: b) simp_all

lemma elapsed_ms_nonneg: "sint (fst p) \<le> sint (snd p) \<Longrightarrow> 0 \<le> elapsed_ms p"
  by (simp add: elapsed_ms_floor floor_ms_nonneg)

lemma best_of_three_nonneg:
  assumes "sint a1 \<le> sint b1" "sint a2 \<le> sint b2" "sint a3 \<le> sint b3"
  shows "0 \<le> min (min (min LLONG_MAX (elapsed_ms (a1, b1))) (elapsed_ms (a2, b2))) (elapsed_ms (a3, b3))"
  using elapsed_ms_nonneg [of "(a1, b1)"] elapsed_ms_nonneg [of "(a2, b2)"]
    elapsed_ms_nonneg [of "(a3, b3)"] assms
  by (simp add: LLONG_MAX_def)

text \<open>
  C9: when every timed execution ends at a clock reading that is at least the reading it
  started at, the value that \<open>bench_best_ms\<close> returns is at least 0, for every
  \<open>reps\<close>; and in a run of \<open>main\<close> whose clock readings never decrease, both timings
  of the report are at least 0.
\<close>

theorem timing_results_nonneg:
  "((\<forall>p \<in> set (timed_runs now fn (nat reps) s). sint (fst p) \<le> sint (snd p)) \<longrightarrow>
      0 \<le> fst (bench_best_ms now fn reps s)) \<and>
   (main lib (monitor sys) argv (w, []) = Returned rc fr \<longrightarrow>
    sorted_wrt (\<lambda>a b. sint a \<le> sint b) (now_readings (snd (fr_world fr))) \<longrightarrow>
      0 \<le> fr_lpm_ms fr \<and> 0 \<le> fr_upm_ms fr)"
proof (intro conjI impI)
  assume "\<forall>p \<in> set (timed_runs now fn (nat reps) s). sint (fst p) \<le> sint (snd p)"
  then have "\<forall>d \<in> set (map elapsed_ms (timed_runs now fn (nat reps) s)). 0 \<le> d"
    by (simp add: elapsed_ms_nonneg)
  then have "0 \<le> foldl min LLONG_MAX (map elapsed_ms (timed_runs now fn (nat reps) s))"
    by (intro foldl_min_nonneg) (simp_all add: LLONG_MAX_def)
  then show "0 \<le> fst (bench_best_ms now fn reps s)"
    by (simp add: bench_best_ms_runs)
next
  assume run: "main lib (monitor sys) argv (w, []) = Returned rc fr"
    and sorted: "sorted_wrt (\<lambda>a b. sint a \<le> sint b) (now_readings (snd (fr_world fr)))"
  from run obtain N degree target x r1 r2 a1 v1 b1 a2 v2 b2 a3 v3 b3 c1 y1 d1 c2 y2 d2 c3 y3 d3
    where lpm_ms: "fr_lpm_ms fr =
           min (min (min LLONG_MAX (elapsed_ms (a1, b1))) (elapsed_ms (a2, b2))) (elapsed_ms (a3, b3))"
      and upm_ms: "fr_upm_ms fr =
           min (min (min LLONG_MAX (elapsed_ms (c1, d1))) (elapsed_ms (c2, d2))) (elapsed_ms (c3, d3))"
      and tr: "snd (fr_world fr) =
           [] @ [Ev_alloc N,
                 Ev_LPM degree x target r1, Ev_UPM degree x target r2,
                 Ev_now a1, Ev_LPM degree x target v1, Ev_now b1,
                 Ev_now a2, Ev_LPM degree x target v2, Ev_now b2,
                 Ev_now a3, Ev_LPM degree x target v3, Ev_now b3,
                 Ev_now c1, Ev_UPM degree x target y1, Ev_now d1,
                 Ev_now c2, Ev_UPM degree x target y2, Ev_now d2,
                 Ev_now c3, Ev_UPM degree x target y3, Ev_now d3]"
    by (rule main_monitor_trace)
  from sorted have "sint a1 \<le> sint b1" "sint a2 \<le> sint b2" "sint a3 \<le> sint b3"
    "sint c1 \<le> sint d1" "sint c2 \<le> sint d2" "sint c3 \<le> sint d3"
    unfolding tr by simp_all
  then show "0 \<le> fr_lpm_ms fr" "0 \<le> fr_upm_ms fr"
    unfolding lpm_ms upm_ms by (simp_all only: best_of_three_nonneg)
qed

section \<open>The run on the test doubles\<close>

lemma td_run:
  "main td_lib (monitor td_sys) [''bench'', ''2''] ((1000, 0), []) = Returned 0 td_frame"
  by code_simp

lemma td_readings:
  "now_readings (snd (fr_world td_frame)) =
     [4001000, 6001000, 6001000, 8001000, 8001000, 10001000,
      10001000, 12001000, 12001000, 14001000, 14001000, 16001000]"
  by (simp add: td_frame_def)

lemma td_sorted: "sorted_wrt (\<lambda>a b. sint a \<le> sint b) (now_readings (snd (fr_world td_frame)))"
  unfolding td_readings by simp

theorem timing_results_nonneg_witness:
  "timed_runs td_now td_fn (nat 3) (1000, [5300000, 2999999, 8000001]) =
     [(1000, 5301000), (5301000, 8300999), (8300999, 16301000)] \<and>
   sint (1000 :: time_point) \<le> sint (5301000 :: time_point) \<and>
   sint (5301000 :: time_point) \<le> sint (8300999 :: time_point) \<and>
   sint (8300999 :: time_point) \<le> sint (16301000 :: time_point) \<and>
   0 \<le> fst (bench_best_ms td_now td_fn 3 (1000, [5300000, 2999999, 8000001])) \<and>
   main td_lib (monitor td_sys) [''bench'', ''2''] ((1000, 0), []) = Returned 0 td_frame \<and>
   sorted_wrt (\<lambda>a b. sint a \<le> sint b) (now_readings (snd (fr_world td_frame))) \<and>
   0 \<le> fr_lpm_ms td_frame \<and> 0 \<le> fr_upm_ms td_frame"
proof -
  let ?s = "(1000 :: time_point, [5300000, 2999999, 8000001 :: time_point])"
  have mono: "\<forall>p \<in> set (timed_runs td_now td_fn (nat 3) ?s). sint (fst p) \<le> sint (snd p)"
    by (simp add: td_runs)
  note inst = timing_results_nonneg [of td_now td_fn 3 ?s td_lib td_sys "[''bench'', ''2'']"
      "(1000, 0)" 0 td_frame]
  from inst mono have "0 \<le> fst (bench_best_ms td_now td_fn 3 ?s)"
    by blast
  moreover from inst td_run td_sorted have "0 \<le> fr_lpm_ms td_frame \<and> 0 \<le> fr_upm_ms td_frame"
    by blast
  ultimately show ?thesis
    using td_run td_sorted by (simp add: td_runs)
qed

section \<open>Zero repetitions, and where the warm-up is\<close>

lemma foldl_min_mem:
  "ds \<noteq> [] \<Longrightarrow> \<forall>d \<in> set ds. d \<le> b \<Longrightarrow> foldl min (b :: int) ds \<in> set ds"
  by (simp add: foldl_min_bounded)

text \<open>
  C10: called with \<open>reps \<le> 0\<close>, \<open>bench_best_ms\<close> returns 9223372036854775807 and leaves
  the state as it was: the computation is executed zero times (its counter stays put) and
  the clock is not read. That value is no measured duration: no pair of clock readings has
  it as its elapsed milliseconds. With \<open>reps \<ge> 1\<close> the result is one of the measured
  durations.
\<close>

theorem bench_best_ms_no_reps:
  "(reps \<le> 0 \<longrightarrow>
      bench_best_ms now fn reps s = (9223372036854775807, s) \<and>
      bench_best_ms (beside now) (counted fn) reps (c, s) = (9223372036854775807, (c, s))) \<and>
   elapsed_ms p \<noteq> 9223372036854775807 \<and>
   (1 \<le> reps \<longrightarrow>
      fst (bench_best_ms now fn reps s) \<in> set (map elapsed_ms (timed_runs now fn (nat reps) s)))"
proof (intro conjI impI)
  assume "reps \<le> 0"
  then show "bench_best_ms now fn reps s = (9223372036854775807, s)"
    and "bench_best_ms (beside now) (counted fn) reps (c, s) = (9223372036854775807, (c, s))"
    by (simp_all add: bench_best_ms_def bench_loop_done LLONG_MAX_def)
next
  show "elapsed_ms p \<noteq> 9223372036854775807"
    using elapsed_ms_less [of p] by (simp add: LLONG_MAX_def)
next
  assume reps: "1 \<le> reps"
  let ?ds = "map elapsed_ms (timed_runs now fn (nat reps) s)"
  have "length ?ds = nat reps"
    by (simp add: length_timed_runs)
  with reps have ne: "?ds \<noteq> []"
    by auto
  have le: "\<forall>d \<in> set ?ds. d \<le> LLONG_MAX"
    using elapsed_ms_less by (auto intro: less_imp_le)
  have "foldl min LLONG_MAX ?ds \<in> set ?ds"
    by (rule foldl_min_mem [OF ne le])
  then show "fst (bench_best_ms now fn reps s) \<in> set ?ds"
    by (simp only: bench_best_ms_runs fst_conv)
qed

theorem bench_best_ms_no_reps_witness:
  "(0 :: int) \<le> 0 \<and>
   bench_best_ms td_now td_fn 0 (1000, [5300000, 2999999, 8000001]) =
     (9223372036854775807, (1000, [5300000, 2999999, 8000001])) \<and>
   bench_best_ms (beside td_now) (counted td_fn) 0 (7, (1000, [5300000, 2999999, 8000001])) =
     (9223372036854775807, (7, (1000, [5300000, 2999999, 8000001]))) \<and>
   (- 1 :: int) \<le> 0 \<and>
   bench_best_ms td_now td_fn (- 1) (1000, [5300000, 2999999, 8000001]) =
     (9223372036854775807, (1000, [5300000, 2999999, 8000001])) \<and>
   elapsed_ms (1000, 5301000) \<noteq> 9223372036854775807 \<and>
   (1 :: int) \<le> 3 \<and>
   fst (bench_best_ms td_now td_fn 3 (1000, [5300000, 2999999, 8000001])) \<in>
     set (map elapsed_ms (timed_runs td_now td_fn (nat 3) (1000, [5300000, 2999999, 8000001])))"
  using bench_best_ms_no_reps [of 0 td_now td_fn "(1000, [5300000, 2999999, 8000001])" 7 "(1000, 5301000)"]
    bench_best_ms_no_reps [of "- 1" td_now td_fn "(1000, [5300000, 2999999, 8000001])" 7 "(1000, 5301000)"]
    bench_best_ms_no_reps [of 3 td_now td_fn "(1000, [5300000, 2999999, 8000001])" 7 "(1000, 5301000)"]
  by simp

lemma harness_trace_LPM:
  "map kind_of (snd (snd (snd (bench_best_ms (beside (clock_now (monitor sys)))
       (\<lambda>(v, w). LPM (monitor sys) d xs t w) default_reps (v0, (w, []))))))
     = [K_now, K_LPM, K_now, K_now, K_LPM, K_now, K_now, K_LPM, K_now]"
proof -
  obtain a1 p1 where l1: "clock_now sys w = (a1, p1)" by (rule prod.exhaust)
  obtain v1 q1 where l2: "LPM sys d xs t p1 = (v1, q1)" by (rule prod.exhaust)
  obtain b1 u1 where l3: "clock_now sys q1 = (b1, u1)" by (rule prod.exhaust)
  obtain a2 p2 where l4: "clock_now sys u1 = (a2, p2)" by (rule prod.exhaust)
  obtain v2 q2 where l5: "LPM sys d xs t p2 = (v2, q2)" by (rule prod.exhaust)
  obtain b2 u2 where l6: "clock_now sys q2 = (b2, u2)" by (rule prod.exhaust)
  obtain a3 p3 where l7: "clock_now sys u2 = (a3, p3)" by (rule prod.exhaust)
  obtain v3 q3 where l8: "LPM sys d xs t p3 = (v3, q3)" by (rule prod.exhaust)
  obtain b3 u3 where l9: "clock_now sys q3 = (b3, u3)" by (rule prod.exhaust)
  show ?thesis
    by (simp add: bench_monitor_LPM [OF l1 l2 l3 l4 l5 l6 l7 l8 l9])
qed

lemma harness_trace_UPM:
  "map kind_of (snd (snd (snd (bench_best_ms (beside (clock_now (monitor sys)))
       (\<lambda>(v, w). UPM (monitor sys) d xs t w) default_reps (v0, (w, []))))))
     = [K_now, K_UPM, K_now, K_now, K_UPM, K_now, K_now, K_UPM, K_now]"
proof -
  obtain a1 p1 where l1: "clock_now sys w = (a1, p1)" by (rule prod.exhaust)
  obtain v1 q1 where l2: "UPM sys d xs t p1 = (v1, q1)" by (rule prod.exhaust)
  obtain b1 u1 where l3: "clock_now sys q1 = (b1, u1)" by (rule prod.exhaust)
  obtain a2 p2 where l4: "clock_now sys u1 = (a2, p2)" by (rule prod.exhaust)
  obtain v2 q2 where l5: "UPM sys d xs t p2 = (v2, q2)" by (rule prod.exhaust)
  obtain b2 u2 where l6: "clock_now sys q2 = (b2, u2)" by (rule prod.exhaust)
  obtain a3 p3 where l7: "clock_now sys u2 = (a3, p3)" by (rule prod.exhaust)
  obtain v3 q3 where l8: "UPM sys d xs t p3 = (v3, q3)" by (rule prod.exhaust)
  obtain b3 u3 where l9: "clock_now sys q3 = (b3, u3)" by (rule prod.exhaust)
  show ?thesis
    by (simp add: bench_monitor_UPM [OF l1 l2 l3 l4 l5 l6 l7 l8 l9])
qed

text \<open>
  C2, as the code has it: in every run of \<open>main\<close> that returns, the calls that reach the
  world are, in this order, the allocation, one call of LPM and one of UPM with no clock
  reading before or between them, and then three times (clock, LPM, clock) and three times
  (clock, UPM, clock); \<open>guard\<close> ends as 0.0 plus the result of that first LPM call plus
  the result of that first UPM call. The warm-up is \<open>main\<close>'s own: \<open>bench_best_ms\<close>
  on either lambda makes the three timed calls and nothing else, and its first call to
  the world is a clock reading.
\<close>

theorem main_warm_up_then_timing:
  assumes "main lib (monitor sys) argv (w, []) = Returned rc fr"
  shows "map kind_of (snd (fr_world fr)) =
           [K_alloc, K_LPM, K_UPM,
            K_now, K_LPM, K_now, K_now, K_LPM, K_now, K_now, K_LPM, K_now,
            K_now, K_UPM, K_now, K_now, K_UPM, K_now, K_now, K_UPM, K_now] \<and>
         fr_guard fr =
           double_add lib (double_add lib double_0_0 (hd (lpm_results (snd (fr_world fr)))))
             (hd (upm_results (snd (fr_world fr)))) \<and>
         map kind_of (snd (snd (snd (bench_best_ms (beside (clock_now (monitor sys)))
             (\<lambda>(v, w). LPM (monitor sys) d xs t w) default_reps (v0, (w', []))))))
           = [K_now, K_LPM, K_now, K_now, K_LPM, K_now, K_now, K_LPM, K_now] \<and>
         map kind_of (snd (snd (snd (bench_best_ms (beside (clock_now (monitor sys)))
             (\<lambda>(v, w). UPM (monitor sys) d xs t w) default_reps (v0, (w', []))))))
           = [K_now, K_UPM, K_now, K_now, K_UPM, K_now, K_now, K_UPM, K_now]"
proof -
  from assms obtain N degree target x r1 r2 a1 v1 b1 a2 v2 b2 a3 v3 b3 c1 y1 d1 c2 y2 d2 c3 y3 d3
    where guard: "fr_guard fr = double_add lib (double_add lib double_0_0 r1) r2"
      and tr: "snd (fr_world fr) =
           [] @ [Ev_alloc N,
                 Ev_LPM degree x target r1, Ev_UPM degree x target r2,
                 Ev_now a1, Ev_LPM degree x target v1, Ev_now b1,
                 Ev_now a2, Ev_LPM degree x target v2, Ev_now b2,
                 Ev_now a3, Ev_LPM degree x target v3, Ev_now b3,
                 Ev_now c1, Ev_UPM degree x target y1, Ev_now d1,
                 Ev_now c2, Ev_UPM degree x target y2, Ev_now d2,
                 Ev_now c3, Ev_UPM degree x target y3, Ev_now d3]"
    by (rule main_monitor_trace)
  have "map kind_of (snd (fr_world fr)) =
           [K_alloc, K_LPM, K_UPM,
            K_now, K_LPM, K_now, K_now, K_LPM, K_now, K_now, K_LPM, K_now,
            K_now, K_UPM, K_now, K_now, K_UPM, K_now, K_now, K_UPM, K_now]"
    unfolding tr by simp
  moreover have "fr_guard fr =
           double_add lib (double_add lib double_0_0 (hd (lpm_results (snd (fr_world fr)))))
             (hd (upm_results (snd (fr_world fr))))"
    unfolding tr guard by simp
  ultimately show ?thesis
    using harness_trace_LPM [of sys d xs t v0 w'] harness_trace_UPM [of sys d xs t v0 w']
    by blast
qed

lemma td_kinds:
  "map kind_of (snd (fr_world td_frame)) =
           [K_alloc, K_LPM, K_UPM,
            K_now, K_LPM, K_now, K_now, K_LPM, K_now, K_now, K_LPM, K_now,
            K_now, K_UPM, K_now, K_now, K_UPM, K_now, K_now, K_UPM, K_now]"
  by (simp add: td_frame_def)

theorem main_warm_up_then_timing_witness:
  "main td_lib (monitor td_sys) [''bench'', ''2''] ((1000, 0), []) = Returned 0 td_frame \<and>
   map kind_of (snd (fr_world td_frame)) =
           [K_alloc, K_LPM, K_UPM,
            K_now, K_LPM, K_now, K_now, K_LPM, K_now, K_now, K_LPM, K_now,
            K_now, K_UPM, K_now, K_now, K_UPM, K_now, K_now, K_UPM, K_now] \<and>
   fr_guard td_frame =
     double_add td_lib (double_add td_lib double_0_0 (hd (lpm_results (snd (fr_world td_frame)))))
       (hd (upm_results (snd (fr_world td_frame))))"
  using main_warm_up_then_timing [OF td_run] td_run by blast

text \<open>
  The harness alone, on the monitored platform double: three timed calls of LPM, each
  between two clock readings, and no call that is not timed.
\<close>

theorem harness_has_no_warm_up:
  "map kind_of (snd (snd (snd (bench_best_ms (beside (clock_now (monitor td_sys))) td_lpm_fn 3
      (0, ((1000, 0), []))))))
     = [K_now, K_LPM, K_now, K_now, K_LPM, K_now, K_now, K_LPM, K_now] \<and>
   lpm_results (snd (snd (snd (bench_best_ms (beside (clock_now (monitor td_sys))) td_lpm_fn 3
      (0, ((1000, 0), [])))))) = [1, 2, 3] \<and>
   upm_results (snd (snd (snd (bench_best_ms (beside (clock_now (monitor td_sys))) td_lpm_fn 3
      (0, ((1000, 0), [])))))) = []"
  by code_simp

section \<open>The report and the sample sequence\<close>

text \<open>
  C3: in every run of \<open>main\<close> that returns, LPM and UPM are each called four times; the
  first call of each is the warm-up, and the value the report prints after \<open>LPM = \<close>
  (after \<open>UPM = \<close>) is the result of the fourth call, which is the call of the third and
  last timed execution: event 10 (event 19) of the run, between two clock readings.
\<close>

theorem main_reports_last_timed_values:
  assumes "main lib (monitor sys) argv (w, []) = Returned rc fr"
    and "tr = snd (fr_world fr)"
  shows "length (lpm_results tr) = 4 \<and> length (upm_results tr) = 4 \<and>
         tr ! 1 = Ev_LPM (fr_degree fr) (fr_x fr) (fr_target fr) (lpm_results tr ! 0) \<and>
         tr ! 2 = Ev_UPM (fr_degree fr) (fr_x fr) (fr_target fr) (upm_results tr ! 0) \<and>
         kind_of (tr ! 9) = K_now \<and>
         tr ! 10 = Ev_LPM (fr_degree fr) (fr_x fr) (fr_target fr) (lpm_results tr ! 3) \<and>
         kind_of (tr ! 11) = K_now \<and>
         kind_of (tr ! 18) = K_now \<and>
         tr ! 19 = Ev_UPM (fr_degree fr) (fr_x fr) (fr_target fr) (upm_results tr ! 3) \<and>
         kind_of (tr ! 20) = K_now \<and>
         fr_lpm_val fr = lpm_results tr ! 3 \<and> fr_upm_val fr = upm_results tr ! 3 \<and>
         fr_out fr =
           [Text (''===== LPM & UPM Performance (ms) ====='' @ [CHR 0x0A]),
            Text ''C++ (NNS) LPM: '', LongLong (fr_lpm_ms fr),
            Text '' ms, UPM: '', LongLong (fr_upm_ms fr), Text ('' ms'' @ [CHR 0x0A]),
            Text ''The sample size when '', SizeT (fr_N fr), Text [CHR 0x0A, CHR 0x0A],
            SetPrecision 10,
            Text ''Results (degree='', Double (fr_degree fr),
            Text '', target='', Double (fr_target fr), Text ('')'' @ [CHR 0x0A]),
            Text ''LPM = '', Double (lpm_results tr ! 3), Text [CHR 0x0A],
            Text ''UPM = '', Double (upm_results tr ! 3), Text [CHR 0x0A]]"
proof -
  from assms(1) obtain N degree target x r1 r2 a1 v1 b1 a2 v2 b2 a3 v3 b3 c1 y1 d1 c2 y2 d2 c3 y3 d3
    where fr: "fr_N fr = N" "fr_degree fr = degree" "fr_target fr = target" "fr_x fr = x"
      and vals: "fr_lpm_val fr = v3" "fr_upm_val fr = y3"
      and out: "fr_out fr =
          [Text (''===== LPM & UPM Performance (ms) ====='' @ [CHR 0x0A]),
           Text ''C++ (NNS) LPM: '', LongLong (fr_lpm_ms fr),
           Text '' ms, UPM: '', LongLong (fr_upm_ms fr), Text ('' ms'' @ [CHR 0x0A]),
           Text ''The sample size when '', SizeT N, Text [CHR 0x0A, CHR 0x0A],
           SetPrecision 10,
           Text ''Results (degree='', Double degree,
           Text '', target='', Double target, Text ('')'' @ [CHR 0x0A]),
           Text ''LPM = '', Double v3, Text [CHR 0x0A],
           Text ''UPM = '', Double y3, Text [CHR 0x0A]]"
      and tr0: "snd (fr_world fr) =
           [] @ [Ev_alloc N,
                 Ev_LPM degree x target r1, Ev_UPM degree x target r2,
                 Ev_now a1, Ev_LPM degree x target v1, Ev_now b1,
                 Ev_now a2, Ev_LPM degree x target v2, Ev_now b2,
                 Ev_now a3, Ev_LPM degree x target v3, Ev_now b3,
                 Ev_now c1, Ev_UPM degree x target y1, Ev_now d1,
                 Ev_now c2, Ev_UPM degree x target y2, Ev_now d2,
                 Ev_now c3, Ev_UPM degree x target y3, Ev_now d3]"
    by (rule main_monitor_trace)
  have tr: "tr =
           [Ev_alloc N,
            Ev_LPM degree x target r1, Ev_UPM degree x target r2,
            Ev_now a1, Ev_LPM degree x target v1, Ev_now b1,
            Ev_now a2, Ev_LPM degree x target v2, Ev_now b2,
            Ev_now a3, Ev_LPM degree x target v3, Ev_now b3,
            Ev_now c1, Ev_UPM degree x target y1, Ev_now d1,
            Ev_now c2, Ev_UPM degree x target y2, Ev_now d2,
            Ev_now c3, Ev_UPM degree x target y3, Ev_now d3]"
    using assms(2) tr0 by simp
  have l: "lpm_results tr = [r1, v1, v2, v3]" and u: "upm_results tr = [r2, y1, y2, y3]"
    unfolding tr by simp_all
  have nth: "tr ! 1 = Ev_LPM degree x target r1" "tr ! 2 = Ev_UPM degree x target r2"
    "tr ! 9 = Ev_now a3" "tr ! 10 = Ev_LPM degree x target v3" "tr ! 11 = Ev_now b3"
    "tr ! 18 = Ev_now c3" "tr ! 19 = Ev_UPM degree x target y3" "tr ! 20 = Ev_now d3"
    unfolding tr by simp_all
  show ?thesis
    unfolding l u nth fr vals out by simp
qed

lemma td_results:
  "lpm_results (snd (fr_world td_frame)) = [1, 3, 4, 5]"
  "upm_results (snd (fr_world td_frame)) = [2, 6, 7, 8]"
  by (simp_all add: td_frame_def)

theorem main_reports_last_timed_values_witness:
  "main td_lib (monitor td_sys) [''bench'', ''2''] ((1000, 0), []) = Returned 0 td_frame \<and>
   lpm_results (snd (fr_world td_frame)) = [1, 3, 4, 5] \<and>
   upm_results (snd (fr_world td_frame)) = [2, 6, 7, 8] \<and>
   fr_lpm_val td_frame = 5 \<and> fr_upm_val td_frame = 8 \<and>
   fr_out td_frame ! 16 = Double 5 \<and> fr_out td_frame ! 19 = Double 8"
  using main_reports_last_timed_values [OF td_run refl] td_run
  by (simp add: td_results)

text \<open>
  C4: the sample sequence of a run is a function of the sample size alone, given the
  library's generator: two runs of \<open>main\<close> that return, on any two platforms, from any
  two worlds and with any arguments that give the same sample size, end with equal
  sequences, element for element and bit for bit. The sequence is what the loop of line 59
  makes of a vector of \<open>N\<close> zeros, a \<open>normal_distribution(0.0, 1.0)\<close> and an
  \<open>mt19937_64\<close> seeded with 123456789.
\<close>

theorem dataset_deterministic:
  assumes "main lib sys argv w = Returned rc fr"
    and "main lib sys' argv' w' = Returned rc' fr'"
    and "fr_N fr = fr_N fr'"
  shows "fr_x fr = fr_x fr' \<and>
         fr_x fr = fst (fill_loop lib (fr_N fr) 0 (replicate (fr_N fr) double_0_0)
                     (normal_distribution lib double_0_0 double_1_0) (mt19937_64 lib 123456789))"
  using main_Returned [OF assms(1)] main_Returned [OF assms(2)] assms(3) by simp

lemma td_run2:
  "main td_lib td_sys [''bench'', ''2'', ''3'', ''0.1''] (5, 7) = Returned 0 td_frame2"
  by code_simp

theorem dataset_deterministic_witness:
  "main td_lib (monitor td_sys) [''bench'', ''2''] ((1000, 0), []) = Returned 0 td_frame \<and>
   main td_lib td_sys [''bench'', ''2'', ''3'', ''0.1''] (5, 7) = Returned 0 td_frame2 \<and>
   fr_N td_frame = fr_N td_frame2 \<and>
   fr_x td_frame = fr_x td_frame2 \<and>
   fr_x td_frame2 = [123456789, 123456790]"
proof -
  have n: "fr_N td_frame = fr_N td_frame2"
    by (simp add: td_frame_def td_frame2_def)
  have "fr_x td_frame = fr_x td_frame2"
    using dataset_deterministic [OF td_run td_run2 n] by simp
  then show ?thesis
    using td_run td_run2 n by (simp add: td_frame2_def)
qed

section \<open>The arguments\<close>

lemma stoll_range: "stoll s = Inr v \<Longrightarrow> LLONG_MIN \<le> v \<and> v \<le> LLONG_MAX"
  by (auto simp: stoll_def Let_def split: if_splits)

lemma size_t_cast_nonneg: "0 \<le> v \<Longrightarrow> v \<le> LLONG_MAX \<Longrightarrow> int (size_t_cast v) = v"
  by (simp add: size_t_cast_def LLONG_MAX_def)

lemma size_t_cast_neg: "LLONG_MIN \<le> v \<Longrightarrow> v < 0 \<Longrightarrow> int (size_t_cast v) = v + 2 ^ 64"
proof -
  assume a: "LLONG_MIN \<le> v" "v < 0"
  then have "0 \<le> v + 2 ^ 64" "v + 2 ^ 64 < 2 ^ 64"
    by (simp_all add: LLONG_MIN_def)
  then have "(v + 2 ^ 64) mod 2 ^ 64 = v + 2 ^ 64"
    by (rule mod_pos_pos_trivial)
  then have "v mod 2 ^ 64 = v + 2 ^ 64"
    by simp
  then show ?thesis
    using a by (simp add: size_t_cast_def LLONG_MIN_def)
qed

lemma stoll_500000: "stoll ''500000'' = Inr 500000"
  by (simp add: stoll_def isspace_def isdigit_def digits_value_def LLONG_MAX_def LLONG_MIN_def)

lemma stoll_2: "stoll ''2'' = Inr 2"
  by (simp add: stoll_def isspace_def isdigit_def digits_value_def LLONG_MAX_def LLONG_MIN_def)

lemma stoll_minus_1: "stoll ''-1'' = Inr (- 1)"
  by (simp add: stoll_def isspace_def isdigit_def digits_value_def LLONG_MAX_def LLONG_MIN_def)

lemma stoll_abc: "stoll ''abc'' = Inl Invalid_argument"
  by (simp add: stoll_def isspace_def isdigit_def digits_value_def LLONG_MAX_def LLONG_MIN_def)

text \<open>
  C5: with no argument the parameters are 12000000, 2.0 and 0.0. A first argument is
  parsed by \<open>stoll\<close> and becomes the sample size (the value itself when it is not
  negative), a second is parsed by \<open>stod\<close> and becomes the degree, a third is parsed by
  \<open>stod\<close> and becomes the target; further arguments are ignored, and a missing one leaves
  the default. With the arguments \<open>500000\<close>, \<open>3\<close> and \<open>0.1\<close> the parameters are
  500000 and the doubles that \<open>stod\<close> returns for \<open>3\<close> and for \<open>0.1\<close>.
\<close>

theorem main_args_resolution:
  "main_args lib [] = Inr (12000000, double_2_0, double_0_0) \<and>
   main_args lib [prog] = Inr (12000000, double_2_0, double_0_0) \<and>
   (stoll t1 = Inr v \<longrightarrow>
      main_args lib [prog, t1] = Inr (size_t_cast v, double_2_0, double_0_0)) \<and>
   (stoll t1 = Inr v \<longrightarrow> stod lib t2 = Inr dg \<longrightarrow>
      main_args lib [prog, t1, t2] = Inr (size_t_cast v, dg, double_0_0)) \<and>
   (stoll t1 = Inr v \<longrightarrow> stod lib t2 = Inr dg \<longrightarrow> stod lib t3 = Inr tg \<longrightarrow>
      main_args lib (prog # t1 # t2 # t3 # rest) = Inr (size_t_cast v, dg, tg)) \<and>
   (stoll t1 = Inr v \<longrightarrow> 0 \<le> v \<longrightarrow> int (size_t_cast v) = v) \<and>
   (stod lib ''3'' = Inr d3 \<longrightarrow> stod lib ''0.1'' = Inr d01 \<longrightarrow>
      main_args lib [prog, ''500000'', ''3'', ''0.1''] = Inr (500000, d3, d01))"
proof (intro conjI impI)
  show "main_args lib [] = Inr (12000000, double_2_0, double_0_0)"
    and "main_args lib [prog] = Inr (12000000, double_2_0, double_0_0)"
    by (simp_all add: main_args_def)
next
  assume "stoll t1 = Inr v"
  then show "main_args lib [prog, t1] = Inr (size_t_cast v, double_2_0, double_0_0)"
    by (simp add: main_args_def)
next
  assume "stoll t1 = Inr v" "stod lib t2 = Inr dg"
  then show "main_args lib [prog, t1, t2] = Inr (size_t_cast v, dg, double_0_0)"
    by (simp add: main_args_def)
next
  assume "stoll t1 = Inr v" "stod lib t2 = Inr dg" "stod lib t3 = Inr tg"
  then show "main_args lib (prog # t1 # t2 # t3 # rest) = Inr (size_t_cast v, dg, tg)"
    by (simp add: main_args_def)
next
  assume "stoll t1 = Inr v" "0 \<le> v"
  then show "int (size_t_cast v) = v"
    using stoll_range [of t1 v] by (simp add: size_t_cast_nonneg)
next
  assume "stod lib ''3'' = Inr d3" "stod lib ''0.1'' = Inr d01"
  then show "main_args lib [prog, ''500000'', ''3'', ''0.1''] = Inr (500000, d3, d01)"
    by (simp add: main_args_def stoll_500000 size_t_cast_def)
qed

theorem main_args_resolution_witness:
  "stoll ''500000'' = Inr 500000 \<and>
   stod td_lib ''3'' = Inr 0x4008000000000000 \<and>
   stod td_lib ''0.1'' = Inr 0x3FB999999999999A \<and>
   (0 :: int) \<le> 500000 \<and> int (size_t_cast 500000) = 500000 \<and>
   main_args td_lib [''bench'', ''500000''] = Inr (500000, double_2_0, double_0_0) \<and>
   main_args td_lib [''bench'', ''500000'', ''3''] = Inr (500000, 0x4008000000000000, double_0_0) \<and>
   main_args td_lib [''bench'', ''500000'', ''3'', ''0.1''] =
     Inr (500000, 0x4008000000000000, 0x3FB999999999999A) \<and>
   main_args td_lib [''bench''] = Inr (12000000, double_2_0, double_0_0)"
proof -
  have s3: "stod td_lib ''3'' = Inr 0x4008000000000000"
    and s01: "stod td_lib ''0.1'' = Inr 0x3FB999999999999A"
    by (simp_all add: td_lib_def td_stod_def)
  have sz: "size_t_cast 500000 = 500000"
    by (simp add: size_t_cast_def)
  show ?thesis
    using main_args_resolution [of td_lib "''bench''" "''500000''" 500000 "''3''"
        "0x4008000000000000" "''0.1''" "0x3FB999999999999A" "[]"
        "0x4008000000000000" "0x3FB999999999999A"]
      stoll_500000 s3 s01
    by (simp add: sz)
qed

text \<open>
  C6: when the first argument is there and \<open>stoll\<close> throws on it, or the second or the
  third is there and \<open>stod\<close> throws on it, the run ends with that exception uncaught:
  nothing has been written to \<open>std::cout\<close>, and the world is as it was, with not one
  call to it: no vector allocated, no kernel called, the clock never read.
\<close>

theorem main_parse_error_fatal:
  assumes "1 < length argv \<and> isl (stoll (argv ! 1)) \<or>
           2 < length argv \<and> isl (stod lib (argv ! 2)) \<or>
           3 < length argv \<and> isl (stod lib (argv ! 3))"
  shows "\<exists>e. main lib sys argv w = Terminated e [] w \<and>
             main lib (monitor sys) argv (w, []) = Terminated e [] (w, [])"
proof -
  from assms have "isl (main_args lib argv)"
    by (auto simp: main_args_def isl_def split: sum.splits)
  then obtain e where "main_args lib argv = Inl e"
    by (auto simp: isl_def)
  then show ?thesis
    by (auto simp: main_args_Inl)
qed

theorem main_parse_error_fatal_witness:
  "1 < length [''bench'', ''abc''] \<and> isl (stoll ([''bench'', ''abc''] ! 1)) \<and>
   main td_lib td_sys [''bench'', ''abc''] (1000, 0) = Terminated Invalid_argument [] (1000, 0) \<and>
   main td_lib (monitor td_sys) [''bench'', ''abc''] ((1000, 0), []) =
     Terminated Invalid_argument [] ((1000, 0), []) \<and>
   3 < length [''bench'', ''2'', ''3'', ''x''] \<and>
   isl (stod td_lib ([''bench'', ''2'', ''3'', ''x''] ! 3)) \<and>
   main td_lib (monitor td_sys) [''bench'', ''2'', ''3'', ''x''] ((1000, 0), []) =
     Terminated Invalid_argument [] ((1000, 0), [])"
proof -
  have a: "1 < length [''bench'', ''abc''] \<and> isl (stoll ([''bench'', ''abc''] ! 1))"
    by (simp add: stoll_abc)
  have b: "3 < length [''bench'', ''2'', ''3'', ''x''] \<and>
           isl (stod td_lib ([''bench'', ''2'', ''3'', ''x''] ! 3))"
    by (simp add: td_lib_def td_stod_def)
  have args: "main_args td_lib [''bench'', ''abc''] = Inl Invalid_argument"
    by (simp add: main_args_def stoll_abc)
  have args': "main_args td_lib [''bench'', ''2'', ''3'', ''x''] = Inl Invalid_argument"
    by (simp add: main_args_def stoll_2 td_lib_def td_stod_def)
  from main_parse_error_fatal [of "[''bench'', ''abc'']" td_lib td_sys "(1000, 0)"] a
  obtain e where e: "main td_lib td_sys [''bench'', ''abc''] (1000, 0) = Terminated e [] (1000, 0)"
    "main td_lib (monitor td_sys) [''bench'', ''abc''] ((1000, 0), []) = Terminated e [] ((1000, 0), [])"
    by blast
  from main_parse_error_fatal [of "[''bench'', ''2'', ''3'', ''x'']" td_lib td_sys "(1000, 0)"] b
  obtain e' where e': "main td_lib (monitor td_sys) [''bench'', ''2'', ''3'', ''x''] ((1000, 0), []) =
      Terminated e' [] ((1000, 0), [])"
    by blast
  have "e = Invalid_argument"
    using e(1) by (simp add: main_args_Inl [OF args])
  moreover have "e' = Invalid_argument"
    using e' by (simp add: main_args_Inl [OF args'])
  ultimately show ?thesis
    using a b e e' by simp
qed

section \<open>Parsed values and the length of the sequence\<close>

lemma main_monitor_total:
  assumes "main_args lib argv = Inr (N, degree, target)"
    and "fst (vector_alloc sys N w) = None"
  shows "\<exists>fr. main lib (monitor sys) argv (w, tr) = Returned 0 fr"
proof (cases "main lib (monitor sys) argv (w, tr)")
  case (Terminated e out wt)
  from main_monitor_Terminated [OF this] assms show ?thesis
    by auto
next
  case (Returned rc fr)
  then obtain N where "rc = 0"
    by (rule main_monitor_trace)
  with Returned show ?thesis
    by simp
qed

lemma main_monitor_first_event:
  assumes "main_args lib argv = Inr (N, degree, target)"
  shows "hd (snd (world_of (main lib (monitor sys) argv (w, [])))) = Ev_alloc N"
proof (cases "main lib (monitor sys) argv (w, [])")
  case (Terminated e out wt)
  from main_monitor_Terminated [OF this] assms show ?thesis
    unfolding Terminated by auto
next
  case (Returned rc fr)
  then obtain N' degree' target' x r1 r2 a1 v1 b1 a2 v2 b2 a3 v3 b3 c1 y1 d1 c2 y2 d2 c3 y3 d3
    where args: "main_args lib argv = Inr (N', degree', target')"
      and tr: "snd (fr_world fr) =
           [] @ [Ev_alloc N',
                 Ev_LPM degree' x target' r1, Ev_UPM degree' x target' r2,
                 Ev_now a1, Ev_LPM degree' x target' v1, Ev_now b1,
                 Ev_now a2, Ev_LPM degree' x target' v2, Ev_now b2,
                 Ev_now a3, Ev_LPM degree' x target' v3, Ev_now b3,
                 Ev_now c1, Ev_UPM degree' x target' y1, Ev_now d1,
                 Ev_now c2, Ev_UPM degree' x target' y2, Ev_now d2,
                 Ev_now c3, Ev_UPM degree' x target' y3, Ev_now d3]"
    by (rule main_monitor_trace)
  from args assms have "N' = N"
    by simp
  then show ?thesis
    unfolding Returned by (simp add: tr)
qed

lemma main_monitor_kernel_args:
  assumes "main lib (monitor sys) argv (w, []) = Returned rc fr"
  shows "List.map_filter kernel_args (snd (fr_world fr)) =
           replicate 8 (fr_degree fr, fr_x fr, fr_target fr) \<and>
         length (fr_x fr) = fr_N fr \<and>
         main_args lib argv = Inr (fr_N fr, fr_degree fr, fr_target fr) \<and>
         fr_out fr ! 7 = SizeT (fr_N fr)"
proof -
  from assms obtain N degree target x r1 r2 a1 v1 b1 a2 v2 b2 a3 v3 b3 c1 y1 d1 c2 y2 d2 c3 y3 d3
    where args: "main_args lib argv = Inr (N, degree, target)"
      and fr: "fr_N fr = N" "fr_degree fr = degree" "fr_target fr = target" "fr_x fr = x"
      and x: "x = fst (fill_loop lib N 0 (replicate N double_0_0)
                   (normal_distribution lib double_0_0 double_1_0) (mt19937_64 lib 123456789))"
      and out: "fr_out fr =
          [Text (''===== LPM & UPM Performance (ms) ====='' @ [CHR 0x0A]),
           Text ''C++ (NNS) LPM: '', LongLong (fr_lpm_ms fr),
           Text '' ms, UPM: '', LongLong (fr_upm_ms fr), Text ('' ms'' @ [CHR 0x0A]),
           Text ''The sample size when '', SizeT N, Text [CHR 0x0A, CHR 0x0A],
           SetPrecision 10,
           Text ''Results (degree='', Double degree,
           Text '', target='', Double target, Text ('')'' @ [CHR 0x0A]),
           Text ''LPM = '', Double v3, Text [CHR 0x0A],
           Text ''UPM = '', Double y3, Text [CHR 0x0A]]"
      and tr: "snd (fr_world fr) =
           [] @ [Ev_alloc N,
                 Ev_LPM degree x target r1, Ev_UPM degree x target r2,
                 Ev_now a1, Ev_LPM degree x target v1, Ev_now b1,
                 Ev_now a2, Ev_LPM degree x target v2, Ev_now b2,
                 Ev_now a3, Ev_LPM degree x target v3, Ev_now b3,
                 Ev_now c1, Ev_UPM degree x target y1, Ev_now d1,
                 Ev_now c2, Ev_UPM degree x target y2, Ev_now d2,
                 Ev_now c3, Ev_UPM degree x target y3, Ev_now d3]"
    by (rule main_monitor_trace)
  have "length x = N"
    unfolding x by (simp add: length_fill_loop)
  moreover have "List.map_filter kernel_args (snd (fr_world fr)) = replicate 8 (degree, x, target)"
    unfolding tr by (simp add: List.map_filter_simps eval_nat_numeral)
  moreover have "fr_out fr ! 7 = SizeT N"
    unfolding out by simp
  ultimately show ?thesis
    using args by (simp add: fr)
qed

text \<open>
  C7, as the code has it: when every argument that is there parses, nothing else is
  checked. The degree and the target are the doubles that \<open>stod\<close> returned, and all
  eight kernel calls of a run that returns get exactly them, with the sample sequence. The
  sample size is the value \<open>v\<close> that \<open>stoll\<close> returned converted to \<open>std::size_t\<close>,
  that is \<open>v mod 2^64\<close>: \<open>v\<close> itself when \<open>v \<ge> 0\<close>, and \<open>v + 2^64\<close> when \<open>v\<close> is
  negative. That number is the length asked of the allocator, which is the first call of
  the run, and the length of the sequence when the run returns.
\<close>

theorem main_passes_parsed_values:
  assumes "main_args lib argv = Inr (N, degree, target)"
  shows "(1 < length argv \<longrightarrow>
            (\<exists>v. stoll (argv ! 1) = Inr v \<and> N = nat (v mod 2 ^ 64) \<and>
                 (0 \<le> v \<longrightarrow> int N = v) \<and> (v < 0 \<longrightarrow> int N = v + 2 ^ 64))) \<and>
         (2 < length argv \<longrightarrow> stod lib (argv ! 2) = Inr degree) \<and>
         (3 < length argv \<longrightarrow> stod lib (argv ! 3) = Inr target) \<and>
         hd (snd (world_of (main lib (monitor sys) argv (w, [])))) = Ev_alloc N \<and>
         (main lib (monitor sys) argv (w, []) = Returned rc fr \<longrightarrow>
            fr_N fr = N \<and> fr_degree fr = degree \<and> fr_target fr = target \<and>
            length (fr_x fr) = N \<and>
            List.map_filter kernel_args (snd (fr_world fr)) = replicate 8 (degree, fr_x fr, target))"
proof (intro conjI impI)
  assume len: "1 < length argv"
  with assms obtain v where v: "stoll (argv ! 1) = Inr v" and N: "N = size_t_cast v"
    by (auto simp: main_args_def split: sum.splits if_splits)
  from stoll_range [OF v] have "0 \<le> v \<longrightarrow> int N = v" "v < 0 \<longrightarrow> int N = v + 2 ^ 64"
    unfolding N by (simp_all add: size_t_cast_nonneg size_t_cast_neg)
  with v N show "\<exists>v. stoll (argv ! 1) = Inr v \<and> N = nat (v mod 2 ^ 64) \<and>
                 (0 \<le> v \<longrightarrow> int N = v) \<and> (v < 0 \<longrightarrow> int N = v + 2 ^ 64)"
    by (auto simp: size_t_cast_def)
next
  assume "2 < length argv"
  with assms show "stod lib (argv ! 2) = Inr degree"
    by (auto simp: main_args_def split: sum.splits if_splits)
next
  assume "3 < length argv"
  with assms show "stod lib (argv ! 3) = Inr target"
    by (auto simp: main_args_def split: sum.splits if_splits)
next
  show "hd (snd (world_of (main lib (monitor sys) argv (w, [])))) = Ev_alloc N"
    by (rule main_monitor_first_event [OF assms])
next
  assume "main lib (monitor sys) argv (w, []) = Returned rc fr"
  from main_monitor_kernel_args [OF this] assms
  show "fr_N fr = N" "fr_degree fr = degree" "fr_target fr = target" "length (fr_x fr) = N"
    "List.map_filter kernel_args (snd (fr_world fr)) = replicate 8 (degree, fr_x fr, target)"
    by simp_all
qed

lemma td_args: "main_args td_lib [''bench'', ''2''] = Inr (2, double_2_0, double_0_0)"
  by (simp add: main_args_def stoll_2 size_t_cast_def)

lemma td_args2:
  "main_args td_lib [''bench'', ''2'', ''3'', ''0.1''] =
     Inr (2, 0x4008000000000000, 0x3FB999999999999A)"
  by (simp add: main_args_def stoll_2 size_t_cast_def td_lib_def td_stod_def)

lemma td_args_minus_1:
  "main_args td_lib [''bench'', ''-1''] = Inr (18446744073709551615, double_2_0, double_0_0)"
  by (simp add: main_args_def stoll_minus_1 size_t_cast_def)

lemma td_run_minus_1:
  "main td_lib (monitor td_sys) [''bench'', ''-1''] ((1000, 0), []) =
     Terminated Length_error [] ((1000, 0), [Ev_alloc 18446744073709551615])"
proof -
  have "vector_alloc td_sys 18446744073709551615 (1000, 0) = (Some Length_error, (1000, 0))"
    by (simp add: td_sys_def)
  from monitor_vector_alloc [OF this, of "[]"] show ?thesis
    by (simp add: main_def td_args_minus_1)
qed

theorem main_passes_parsed_values_witness:
  "main_args td_lib [''bench'', ''2'', ''3'', ''0.1''] =
     Inr (2, 0x4008000000000000, 0x3FB999999999999A) \<and>
   1 < length [''bench'', ''2'', ''3'', ''0.1''] \<and> 3 < length [''bench'', ''2'', ''3'', ''0.1''] \<and>
   stoll ''2'' = Inr 2 \<and> (0 :: int) \<le> 2 \<and>
   stod td_lib ''3'' = Inr 0x4008000000000000 \<and>
   stod td_lib ''0.1'' = Inr 0x3FB999999999999A \<and>
   main_args td_lib [''bench'', ''-1''] = Inr (18446744073709551615, double_2_0, double_0_0) \<and>
   stoll ''-1'' = Inr (- 1) \<and> (- 1 :: int) < 0 \<and>
   int 18446744073709551615 = - 1 + 2 ^ 64 \<and>
   hd (snd (world_of (main td_lib (monitor td_sys) [''bench'', ''-1''] ((1000, 0), [])))) =
     Ev_alloc 18446744073709551615 \<and>
   main_args td_lib [''bench'', ''2''] = Inr (2, double_2_0, double_0_0) \<and>
   main td_lib (monitor td_sys) [''bench'', ''2''] ((1000, 0), []) = Returned 0 td_frame \<and>
   length (fr_x td_frame) = 2 \<and>
   List.map_filter kernel_args (snd (fr_world td_frame)) =
     replicate 8 (double_2_0, fr_x td_frame, double_0_0)"
proof -
  note a = main_passes_parsed_values [OF td_args2, of td_sys "(1000, 0)" 0 td_frame]
  note b = main_passes_parsed_values [OF td_args_minus_1, of td_sys "(1000, 0)" 0 td_frame]
  note c = main_passes_parsed_values [OF td_args, of td_sys "(1000, 0)" 0 td_frame]
  have "stod td_lib ''3'' = Inr 0x4008000000000000" "stod td_lib ''0.1'' = Inr 0x3FB999999999999A"
    using a by simp_all
  moreover have "hd (snd (world_of (main td_lib (monitor td_sys) [''bench'', ''-1''] ((1000, 0), [])))) =
     Ev_alloc 18446744073709551615"
    using b by blast
  moreover have "length (fr_x td_frame) = 2 \<and>
     List.map_filter kernel_args (snd (fr_world td_frame)) =
       replicate 8 (double_2_0, fr_x td_frame, double_0_0)"
    using c td_run by blast
  ultimately show ?thesis
    using td_args td_args2 td_args_minus_1 td_run stoll_2 stoll_minus_1 by simp
qed

text \<open>
  The first argument \<open>-1\<close> parses to \<open>-1\<close>, and the sample size is 18446744073709551615,
  not \<open>-1\<close>; on the platform double, which can allocate 1000 doubles, the run ends in
  \<open>std::length_error\<close> at the allocation of that many.
\<close>

theorem negative_sample_size_wraps:
  "stoll ''-1'' = Inr (- 1) \<and>
   main_args td_lib [''bench'', ''-1''] = Inr (18446744073709551615, double_2_0, double_0_0) \<and>
   main td_lib (monitor td_sys) [''bench'', ''-1''] ((1000, 0), []) =
     Terminated Length_error [] ((1000, 0), [Ev_alloc 18446744073709551615])"
  using stoll_minus_1 td_args_minus_1 td_run_minus_1 by simp

text \<open>
  C8: for the sample size \<open>N\<close> that the arguments resolve to, a run whose allocation
  succeeds returns, and its sequence has exactly \<open>N\<close> elements: when \<open>main\<close> returns,
  in each of the two warm-up calls and of the six timed calls (every kernel call gets
  this one sequence), and \<open>N\<close> is the sample size that the report prints.
\<close>

theorem sample_sequence_length:
  assumes "main_args lib argv = Inr (N, degree, target)"
    and "fst (vector_alloc sys N w) = None"
  shows "\<exists>fr. main lib (monitor sys) argv (w, []) = Returned 0 fr \<and>
              fr_N fr = N \<and> length (fr_x fr) = N \<and>
              List.map_filter kernel_args (snd (fr_world fr)) = replicate 8 (degree, fr_x fr, target) \<and>
              map (\<lambda>(d, xs, t). length xs) (List.map_filter kernel_args (snd (fr_world fr))) =
                replicate 8 N \<and>
              fr_out fr ! 7 = SizeT N"
proof -
  from main_monitor_total [OF assms] obtain fr
    where run: "main lib (monitor sys) argv (w, []) = Returned 0 fr"
    by blast
  from main_monitor_kernel_args [OF run] assms(1)
  have facts: "fr_N fr = N" "fr_degree fr = degree" "fr_target fr = target" "length (fr_x fr) = N"
    "List.map_filter kernel_args (snd (fr_world fr)) = replicate 8 (degree, fr_x fr, target)"
    "fr_out fr ! 7 = SizeT N"
    by simp_all
  have "map (\<lambda>(d, xs, t). length xs) (List.map_filter kernel_args (snd (fr_world fr))) =
          replicate 8 N"
    unfolding facts(5) by (simp add: facts(4))
  with run facts show ?thesis
    by blast
qed

theorem sample_sequence_length_witness:
  "main_args td_lib [''bench'', ''2''] = Inr (2, double_2_0, double_0_0) \<and>
   fst (vector_alloc td_sys 2 (1000, 0)) = None \<and>
   main td_lib (monitor td_sys) [''bench'', ''2''] ((1000, 0), []) = Returned 0 td_frame \<and>
   fr_N td_frame = 2 \<and> length (fr_x td_frame) = 2 \<and>
   List.map_filter kernel_args (snd (fr_world td_frame)) =
     replicate 8 (double_2_0, fr_x td_frame, double_0_0) \<and>
   fr_out td_frame ! 7 = SizeT 2"
proof -
  have alloc: "fst (vector_alloc td_sys 2 (1000, 0)) = None"
    by (simp add: td_sys_def)
  from sample_sequence_length [OF td_args alloc] td_run
  have "fr_N td_frame = 2 \<and> length (fr_x td_frame) = 2 \<and>
        List.map_filter kernel_args (snd (fr_world td_frame)) =
          replicate 8 (double_2_0, fr_x td_frame, double_0_0) \<and>
        fr_out td_frame ! 7 = SizeT 2"
    by auto
  then show ?thesis
    using td_args alloc td_run by simp
qed

end
